theory Spec2Isabelle
  imports Complex_Main
begin

section \<open>Python strings and floats, as far as the add-on uses them\<close>

text \<open>
  A Python \<open>str\<close> is modelled as a \<open>string\<close> whose characters are the code points
  below 256.  A Python \<open>float\<close> is modelled as an exact real number or one of the three
  special values; rounding to binary64 and overflow of very large literals to infinity
  are not modelled.
\<close>

datatype pyfloat = Finite real | PosInf | NegInf | NaN

datatype exn = ValueError | IndexError | AttributeError | TypeError | OSError | RuntimeError

text \<open>\<open>x / k\<close> for a positive finite constant \<open>k\<close> (the code divides by 1000.0 and 100.0).
  The quotient is the exact one.  Binary64 rounds it, and a quotient too small to
  represent underflows to a zero that keeps the sign bit and compares as \<open>>= 0\<close>; what
  is stated below about signs is only what survives that: a non-negative dividend gives a
  non-negative quotient.\<close>

fun fdiv :: "pyfloat \<Rightarrow> real \<Rightarrow> pyfloat" where
  "fdiv (Finite r) k = Finite (r / k)"
| "fdiv PosInf k = PosInf"
| "fdiv NegInf k = NegInf"
| "fdiv NaN k = NaN"

text \<open>\<open>x >= 0\<close> on floats; every comparison with nan is false.\<close>

fun nonneg :: "pyfloat \<Rightarrow> bool" where
  "nonneg (Finite r) = (0 \<le> r)"
| "nonneg PosInf = True"
| "nonneg NegInf = False"
| "nonneg NaN = False"

text \<open>\<open>x > 0\<close> on floats.\<close>

fun positive :: "pyfloat \<Rightarrow> bool" where
  "positive (Finite r) = (0 < r)"
| "positive PosInf = True"
| "positive NegInf = False"
| "positive NaN = False"

fun fneg :: "pyfloat \<Rightarrow> pyfloat" where
  "fneg (Finite r) = Finite (- r)"
| "fneg PosInf = NegInf"
| "fneg NegInf = PosInf"
| "fneg NaN = NaN"

subsection \<open>\<open>str.isspace\<close>, \<open>str.split()\<close>, \<open>str.replace\<close>, \<open>str.lower\<close>\<close>

text \<open>The white space of \<open>str.split()\<close> among the code points below 256:
  U+0009 to U+000D, U+001C to U+0020, U+0085 and U+00A0.\<close>

definition is_space :: "char \<Rightarrow> bool" where
  "is_space c = (let n = (of_char c :: nat) in
     (9 \<le> n \<and> n \<le> 13) \<or> (28 \<le> n \<and> n \<le> 32) \<or> n = 133 \<or> n = 160)"

text \<open>\<open>s.split()\<close>: the maximal runs of non-space characters, in order.  \<open>cur\<close> is
  the word being read, reversed.\<close>

fun split_from :: "string \<Rightarrow> string \<Rightarrow> string list" where
  "split_from cur [] = (if cur = [] then [] else [rev cur])"
| "split_from cur (c # cs) =
     (if is_space c then (if cur = [] then split_from [] cs else rev cur # split_from [] cs)
      else split_from (c # cur) cs)"

definition split :: "string \<Rightarrow> string list" where
  "split s = split_from [] s"

text \<open>\<open>s.replace(',', '.')\<close>.\<close>

definition replace_comma :: "string \<Rightarrow> string" where
  "replace_comma s = map (\<lambda>c. if c = CHR '','' then CHR ''.'' else c) s"

text \<open>\<open>s.lower()\<close> on the code points below 256: A to Z, and U+00C0 to U+00DE
  without the multiplication sign U+00D7, move up by 32.\<close>

definition lower_char :: "char \<Rightarrow> char" where
  "lower_char c = (let n = (of_char c :: nat) in
     if (65 \<le> n \<and> n \<le> 90) \<or> (192 \<le> n \<and> n \<le> 222 \<and> n \<noteq> 215) then char_of (n + 32) else c)"

definition lower :: "string \<Rightarrow> string" where
  "lower s = map lower_char s"

subsection \<open>\<open>float(s)\<close> on a string\<close>

text \<open>
  The grammar of \<open>float\<close>: an optional sign, then \<open>inf\<close>, \<open>infinity\<close> or \<open>nan\<close> in any
  case, or a decimal number with at least one digit, an optional point and an optional
  exponent.  A single underscore may stand between two digits.  The surrounding white
  space that \<open>float\<close> would strip cannot occur in a word returned by \<open>split\<close>.
\<close>

definition is_digit :: "char \<Rightarrow> bool" where
  "is_digit c = (let n = (of_char c :: nat) in 48 \<le> n \<and> n \<le> 57)"

definition digit_val :: "char \<Rightarrow> nat" where
  "digit_val c = of_char c - 48"

definition digits_val :: "string \<Rightarrow> nat" where
  "digits_val ds = foldl (\<lambda>a c. 10 * a + digit_val c) 0 ds"

text \<open>Every underscore has a digit before it and a digit after it.  \<open>prev\<close> is the
  character before the rest being read (\<open>None\<close> at the start).\<close>

fun underscores_ok :: "char option \<Rightarrow> string \<Rightarrow> bool" where
  "underscores_ok prev [] = (prev \<noteq> Some (CHR ''_''))"
| "underscores_ok prev (c # cs) =
     (if c = CHR ''_'' then
        (case prev of None \<Rightarrow> False | Some p \<Rightarrow> is_digit p \<and> underscores_ok (Some c) cs)
      else if prev = Some (CHR ''_'') \<and> \<not> is_digit c then False
      else underscores_ok (Some c) cs)"

text \<open>An optional sign: \<open>True\<close> for a minus.\<close>

fun take_sign :: "string \<Rightarrow> bool \<times> string" where
  "take_sign [] = (False, [])"
| "take_sign (c # cs) =
     (if c = CHR ''-'' then (True, cs) else if c = CHR ''+'' then (False, cs) else (False, c # cs))"

text \<open>The exponent part after the mantissa: nothing, or \<open>e\<close>/\<open>E\<close>, an optional sign
  and at least one digit.  The result scales the mantissa.\<close>

definition exponent :: "string \<Rightarrow> (real \<Rightarrow> real) option" where
  "exponent s =
     (case s of
        [] \<Rightarrow> Some (\<lambda>m. m)
      | c # t \<Rightarrow>
          if c = CHR ''e'' \<or> c = CHR ''E'' then
            (let (neg, ds) = take_sign t in
             if ds \<noteq> [] \<and> list_all is_digit ds then
               Some (\<lambda>m. if neg then m / 10 ^ digits_val ds else m * 10 ^ digits_val ds)
             else None)
          else None)"

text \<open>An unsigned decimal number without underscores.\<close>

definition decimal :: "string \<Rightarrow> real option" where
  "decimal s =
     (let ip = takeWhile is_digit s;
          r1 = dropWhile is_digit s;
          fp = (case r1 of [] \<Rightarrow> [] | c # t \<Rightarrow> if c = CHR ''.'' then takeWhile is_digit t else []);
          r2 = (case r1 of [] \<Rightarrow> [] | c # t \<Rightarrow> if c = CHR ''.'' then dropWhile is_digit t else r1)
      in if ip = [] \<and> fp = [] then None
         else (case exponent r2 of
                 None \<Rightarrow> None
               | Some scale \<Rightarrow> Some (scale (real (digits_val (ip @ fp)) / 10 ^ length fp))))"

definition float :: "string \<Rightarrow> exn + pyfloat" where
  "float s =
     (if \<not> underscores_ok None s then Inl ValueError
      else
        (let (neg, body) = take_sign (filter (\<lambda>c. c \<noteq> CHR ''_'') s);
             sg = (\<lambda>x. if neg then fneg x else x)
         in if lower body = ''inf'' \<or> lower body = ''infinity'' then Inr (sg PosInf)
            else if lower body = ''nan'' then Inr NaN
            else (case decimal body of
                    None \<Rightarrow> Inl ValueError
                  | Some r \<Rightarrow> Inr (sg (Finite r)))))"

section \<open>Thickness of a component, from its quantity string\<close>

text \<open>
  The body of the \<open>try\<close> block of \<open>create_ifc_library_from_bauteil_elements\<close>
  (lines 92 to 106): the first word with commas turned into points goes through
  \<open>float\<close>, the second word is the unit, \<open>mm\<close> when there is none.
\<close>

definition parse_quantity :: "string \<Rightarrow> exn + pyfloat" where
  "parse_quantity quantity_text =
     (case split quantity_text of
        [] \<Rightarrow> Inl IndexError
      | w # ws \<Rightarrow>
          (let numeric_part = replace_comma w;
               unit_part = (case ws of [] \<Rightarrow> ''mm'' | u # _ \<Rightarrow> u)
           in case float numeric_part of
                Inl e \<Rightarrow> Inl e
              | Inr thickness_value \<Rightarrow>
                  if lower unit_part = ''mm'' then Inr (fdiv thickness_value 1000)
                  else if lower unit_part = ''cm'' then Inr (fdiv thickness_value 100)
                  else if lower unit_part = ''m'' then Inr thickness_value
                  else Inr (fdiv thickness_value 1000)))"

text \<open>
  Lines 86 to 108: \<open>thickness = 0.0\<close>, and only a non-empty quantity string is
  parsed; \<open>except (ValueError, IndexError)\<close> gives 0.01, any other exception
  would leave the function.  \<open>None\<close> is a missing \<open>quantity\<close> key.
\<close>

definition resolve_thickness :: "string option \<Rightarrow> exn + pyfloat" where
  "resolve_thickness quantity =
     (let quantity_text = (case quantity of None \<Rightarrow> '''' | Some q \<Rightarrow> q)
      in if quantity_text = [] then Inr (Finite 0)
         else (case parse_quantity quantity_text of
                 Inr t \<Rightarrow> Inr t
               | Inl e \<Rightarrow> if e = ValueError \<or> e = IndexError then Inr (Finite (1 / 100)) else Inl e))"


section \<open>The element list handed to emission\<close>

text \<open>
  A component is a Python dict with the keys \<open>name\<close>, \<open>quantity\<close>,
  \<open>layer_thickness\<close> and \<open>lifecycle_processes\<close>; a process is a dict with the keys
  \<open>uuid\<close> and \<open>process_name\<close>.  \<open>None\<close> is a missing key (or, for \<open>quantity\<close>
  and \<open>layer_thickness\<close>, the value \<open>None\<close>); a missing process list is the empty
  list, which the code treats the same way.
\<close>

record process =
  uuid :: "string option"
  process_name :: "string option"

record Component =
  name :: "string option"
  quantity :: "string option"
  layer_thickness :: "pyfloat option"
  lifecycle_processes :: "process list"

record BauteilElement =
  category_code :: string
  name :: string
  components :: "Component list"

section \<open>The IFC object graph\<close>

text \<open>
  An \<open>ifcopenshell.file\<close> is the list of its instances in creation order; an instance
  is referred to by its position.  Attributes that the code reads back from an opened
  file are optional, since a file may leave them unset.  A value of a defined type
  (\<open>IfcIdentifier\<close>, \<open>IfcURIReference\<close>) has no position of its own: it is held by the
  property it is stored in.

  The attributes of each constructor, in order, are those the code sets or reads:
  \<open>IfcPerson\<close> FamilyName, GivenName; \<open>IfcOrganization\<close> Name;
  \<open>IfcPersonAndOrganization\<close> ThePerson, TheOrganization; \<open>IfcApplication\<close>
  ApplicationDeveloper, Version, ApplicationFullName, ApplicationIdentifier;
  \<open>IfcOwnerHistory\<close> OwningUser, OwningApplication, ChangeAction, CreationDate;
  \<open>IfcUnitAssignment\<close> Units; \<open>IfcSIUnit\<close> UnitType, Name; \<open>IfcProject\<close> GlobalId, Name,
  OwnerHistory, UnitsInContext; \<open>IfcLibraryInformation\<close> Name, Version, Publisher;
  \<open>IfcMaterialLayerSet\<close> LayerSetName, MaterialLayers; \<open>IfcMaterial\<close> Name;
  \<open>IfcPropertySingleValue\<close> Name, Description, NominalValue; \<open>IfcMaterialProperties\<close>
  Name, Material, Properties; \<open>IfcMaterialLayer\<close> Material, LayerThickness, Name;
  \<open>IfcWallType\<close> GlobalId, OwnerHistory, Name, Description, ApplicableOccurrence,
  HasPropertySets, RepresentationMaps, Tag, ElementType, PredefinedType;
  \<open>IfcRelAssociatesMaterial\<close> GlobalId, OwnerHistory, RelatedObjects, RelatingMaterial;
  \<open>IfcRelAssociatesLibrary\<close> GlobalId, OwnerHistory, Name, Description, RelatedObjects,
  RelatingLibrary; \<open>IfcClassificationReference\<close> Location, Identification, Name;
  \<open>IfcRelAssociatesClassification\<close> GlobalId, OwnerHistory, RelatedObjects,
  RelatingClassification.  \<open>IfcOther\<close> stands for any instance of another type in an
  opened file.
\<close>

type_synonym eid = nat

datatype ifc_value = IfcIdentifier string | IfcURIReference string

datatype ifc_entity =
    IfcPerson string string
  | IfcOrganization "string option"
  | IfcPersonAndOrganization eid eid
  | IfcApplication eid string string string
  | IfcOwnerHistory eid eid string int
  | IfcUnitAssignment "eid list"
  | IfcSIUnit string string
  | IfcProject string string eid eid
  | IfcLibraryInformation "string option" "string option" "eid option"
  | IfcMaterialLayerSet "string option" "eid list option"
  | IfcMaterial "string option"
  | IfcPropertySingleValue string string ifc_value
  | IfcMaterialProperties string eid "eid list"
  | IfcMaterialLayer "eid option" "pyfloat option" "string option"
  | IfcWallType string eid "string option" "string option" string "eid list" "eid list"
      string "string option" string
  | IfcRelAssociatesMaterial string eid "eid list option" "eid option"
  | IfcRelAssociatesLibrary string eid string string "eid list" eid
  | IfcClassificationReference "string option" "string option" "string option"
  | IfcRelAssociatesClassification string eid "eid list option" "eid option"
  | IfcOther

type_synonym ifc_file = "ifc_entity list"

text \<open>\<open>instance.is_a()\<close>: the name of the entity type.\<close>

fun type_name :: "ifc_entity \<Rightarrow> string" where
  "type_name (IfcPerson _ _) = ''IfcPerson''"
| "type_name (IfcOrganization _) = ''IfcOrganization''"
| "type_name (IfcPersonAndOrganization _ _) = ''IfcPersonAndOrganization''"
| "type_name (IfcApplication _ _ _ _) = ''IfcApplication''"
| "type_name (IfcOwnerHistory _ _ _ _) = ''IfcOwnerHistory''"
| "type_name (IfcUnitAssignment _) = ''IfcUnitAssignment''"
| "type_name (IfcSIUnit _ _) = ''IfcSIUnit''"
| "type_name (IfcProject _ _ _ _) = ''IfcProject''"
| "type_name (IfcLibraryInformation _ _ _) = ''IfcLibraryInformation''"
| "type_name (IfcMaterialLayerSet _ _) = ''IfcMaterialLayerSet''"
| "type_name (IfcMaterial _) = ''IfcMaterial''"
| "type_name (IfcPropertySingleValue _ _ _) = ''IfcPropertySingleValue''"
| "type_name (IfcMaterialProperties _ _ _) = ''IfcMaterialProperties''"
| "type_name (IfcMaterialLayer _ _ _) = ''IfcMaterialLayer''"
| "type_name (IfcWallType _ _ _ _ _ _ _ _ _ _) = ''IfcWallType''"
| "type_name (IfcRelAssociatesMaterial _ _ _ _) = ''IfcRelAssociatesMaterial''"
| "type_name (IfcRelAssociatesLibrary _ _ _ _ _ _) = ''IfcRelAssociatesLibrary''"
| "type_name (IfcClassificationReference _ _ _) = ''IfcClassificationReference''"
| "type_name (IfcRelAssociatesClassification _ _ _ _) = ''IfcRelAssociatesClassification''"
| "type_name IfcOther = ''IfcOther''"

text \<open>\<open>file.by_type(T)\<close>: the instances of type \<open>T\<close>, in file order, by position.
  None of the types asked for in this code has a subtype among the modelled ones.\<close>

definition by_type :: "ifc_file \<Rightarrow> string \<Rightarrow> eid list" where
  "by_type f T = filter (\<lambda>i. type_name (f ! i) = T) [0..<length f]"

text \<open>
  What the code takes from outside: the compressed random GUIDs of \<open>create_guid\<close>
  (one per position of the file at which it is asked for), the clock, and the instances
  that ifcopenshell refuses to create (\<open>create_entity\<close> raises for them).
\<close>

record env =
  guid :: "nat \<Rightarrow> string"
  now :: int
  rejects :: "ifc_entity \<Rightarrow> bool"

text \<open>A computation on the file under construction that may raise.\<close>

type_synonym 'a build = "ifc_file \<Rightarrow> exn + ('a \<times> ifc_file)"

definition ret :: "'a \<Rightarrow> 'a build" where
  "ret x f = Inr (x, f)"

definition raise :: "exn \<Rightarrow> 'a build" where
  "raise e f = Inl e"

definition bind :: "'a build \<Rightarrow> ('a \<Rightarrow> 'b build) \<Rightarrow> 'b build" where
  "bind m k f = (case m f of Inl e \<Rightarrow> Inl e | Inr (x, f') \<Rightarrow> k x f')"

definition create_entity :: "env \<Rightarrow> ifc_entity \<Rightarrow> eid build" where
  "create_entity env e f = (if rejects env e then Inl RuntimeError else Inr (length f, f @ [e]))"

definition create_guid :: "env \<Rightarrow> string build" where
  "create_guid env f = Inr (guid env (length f), f)"

text \<open>\<open>unit_assignment.Units = (length_unit,)\<close>\<close>

definition set_Units :: "eid \<Rightarrow> eid list \<Rightarrow> unit build" where
  "set_Units i us f =
     (if i < length f then
        (case f ! i of
           IfcUnitAssignment _ \<Rightarrow> Inr ((), f[i := IfcUnitAssignment us])
         | _ \<Rightarrow> Inl AttributeError)
      else Inl RuntimeError)"

text \<open>\<open>material_layer_set.MaterialLayers = tuple(material_layers)\<close>\<close>

definition set_MaterialLayers :: "eid \<Rightarrow> eid list \<Rightarrow> unit build" where
  "set_MaterialLayers i ls f =
     (if i < length f then
        (case f ! i of
           IfcMaterialLayerSet n _ \<Rightarrow> Inr ((), f[i := IfcMaterialLayerSet n (Some ls)])
         | _ \<Rightarrow> Inl AttributeError)
      else Inl RuntimeError)"

text \<open>The decimal digits of a number, as an f-string prints it.\<close>

fun str_nat :: "nat \<Rightarrow> string" where
  "str_nat n = (if n < 10 then [char_of (48 + n)] else str_nat (n div 10) @ [char_of (48 + n mod 10)])"

declare str_nat.simps [simp del]


section \<open>\<open>create_ifc_library_from_bauteil_elements\<close>\<close>

text \<open>Lines 28 to 67: owner history, units, project and library information.  The
  result is the owner history and the library, which the loop refers to.\<close>

definition library_header :: "env \<Rightarrow> (eid \<times> eid) build" where
  "library_header env =
     bind (create_entity env (IfcPerson ''User'' ''Default'')) (\<lambda>person.
     bind (create_entity env (IfcOrganization (Some ''eLCA Material Library Creator''))) (\<lambda>organization.
     bind (create_entity env (IfcPersonAndOrganization person organization)) (\<lambda>person_and_org.
     bind (create_entity env (IfcApplication organization ''1.0''
             ''eLCA Material Library Creator'' ''eLCA_Creator'')) (\<lambda>application.
     bind (create_entity env (IfcOwnerHistory person_and_org application ''ADDED'' (now env))) (\<lambda>owner_history.
     bind (create_entity env (IfcUnitAssignment [])) (\<lambda>unit_assignment.
     bind (create_entity env (IfcSIUnit ''LENGTHUNIT'' ''METRE'')) (\<lambda>length_unit.
     bind (set_Units unit_assignment [length_unit]) (\<lambda>_.
     bind (create_guid env) (\<lambda>g.
     bind (create_entity env (IfcProject g ''eLCA Material Library'' owner_history unit_assignment)) (\<lambda>project.
     bind (create_entity env (IfcLibraryInformation (Some ''eLCA_Material_Library'') (Some ''1.0'')
             (Some organization))) (\<lambda>library.
     ret (owner_history, library))))))))))))"

text \<open>Lines 116 to 134: the two Oekobaudat properties and the property set of one
  lifecycle process; a process without a non-empty \<open>uuid\<close> adds nothing.\<close>

definition add_process :: "env \<Rightarrow> eid \<Rightarrow> process \<Rightarrow> unit build" where
  "add_process env material p =
     (case uuid p of
        None \<Rightarrow> ret ()
      | Some process_uuid \<Rightarrow>
          if process_uuid = [] then ret ()
          else
            bind (create_entity env (IfcPropertySingleValue ''uuid'' ''Uuid form Oekobaudat''
                    (IfcIdentifier process_uuid))) (\<lambda>uuid_property.
            bind (create_entity env (IfcPropertySingleValue
                    (case process_name p of None \<Rightarrow> ''Unknown'' | Some n \<Rightarrow> n)
                    ''Link to Oekobaudat''
                    (IfcURIReference (''https://oekobaudat.de/OEKOBAU.DAT/datasetdetail/'' @ process_uuid))))
              (\<lambda>extref_property.
            bind (create_entity env (IfcMaterialProperties ''pset_oekobaudat'' material
                    [uuid_property, extref_property])) (\<lambda>pset.
            ret ()))))"

fun add_processes :: "env \<Rightarrow> eid \<Rightarrow> process list \<Rightarrow> unit build" where
  "add_processes env material [] = ret ()"
| "add_processes env material (p # ps) =
     bind (add_process env material p) (\<lambda>_. add_processes env material ps)"

text \<open>Line 83: \<open>component.get('name', f'Component_{idx}')\<close>.\<close>

definition component_name :: "nat \<Rightarrow> Component \<Rightarrow> string" where
  "component_name idx component =
     (case Component.name component of None \<Rightarrow> ''Component_'' @ str_nat idx | Some n \<Rightarrow> n)"

text \<open>Lines 83 to 142, one turn of the inner loop: the material, its process
  properties and the material layer of one component.  The result is the layer.\<close>

definition add_component :: "env \<Rightarrow> nat \<Rightarrow> Component \<Rightarrow> eid build" where
  "add_component env idx component =
     (case resolve_thickness (quantity component) of
        Inl e \<Rightarrow> raise e
      | Inr thickness \<Rightarrow>
          bind (create_entity env (IfcMaterial (Some (component_name idx component)))) (\<lambda>material.
          bind (add_processes env material (lifecycle_processes component)) (\<lambda>_.
          create_entity env (IfcMaterialLayer (Some material) (Some thickness)
            (Some (component_name idx component))))))"

text \<open>The inner loop, \<open>for idx, component in enumerate(element.components)\<close>, with
  the list \<open>material_layers\<close> it appends to.\<close>

fun add_components :: "env \<Rightarrow> nat \<Rightarrow> Component list \<Rightarrow> eid list \<Rightarrow> eid list build" where
  "add_components env idx [] material_layers = ret material_layers"
| "add_components env idx (c # cs) material_layers =
     bind (add_component env idx c) (\<lambda>material_layer.
     add_components env (Suc idx) cs (material_layers @ [material_layer]))"

text \<open>Lines 71 to 184, one turn of the outer loop.\<close>

definition add_element :: "env \<Rightarrow> eid \<Rightarrow> eid \<Rightarrow> BauteilElement \<Rightarrow> unit build" where
  "add_element env owner_history library element =
     (if components element = [] then ret ()
      else
        (let layer_set_name = category_code element @ '' '' @ BauteilElement.name element in
         bind (create_entity env (IfcMaterialLayerSet (Some layer_set_name) None)) (\<lambda>material_layer_set.
         bind (add_components env 0 (components element) []) (\<lambda>material_layers.
         if material_layers = [] then ret ()
         else
           bind (set_MaterialLayers material_layer_set material_layers) (\<lambda>_.
           let wall_type_name = category_code element @ '' '' @ BauteilElement.name element in
           bind (create_guid env) (\<lambda>g1.
           bind (create_entity env (IfcWallType g1 owner_history (Some wall_type_name)
                   (Some (''Wall type for '' @ BauteilElement.name element)) [] [] [] []
                   (Some wall_type_name) ''STANDARD'')) (\<lambda>wall_type.
           bind (create_guid env) (\<lambda>g2.
           bind (create_entity env (IfcRelAssociatesMaterial g2 owner_history (Some [wall_type])
                   (Some material_layer_set))) (\<lambda>_.
           bind (create_guid env) (\<lambda>g3.
           bind (create_entity env (IfcRelAssociatesLibrary g3 owner_history
                   (''Association '' @ BauteilElement.name element)
                   (''Association to library for '' @ BauteilElement.name element)
                   [wall_type] library)) (\<lambda>_.
           ret ())))))))))))"

fun add_elements :: "env \<Rightarrow> eid \<Rightarrow> eid \<Rightarrow> BauteilElement list \<Rightarrow> unit build" where
  "add_elements env owner_history library [] = ret ()"
| "add_elements env owner_history library (element # rest) =
     bind (add_element env owner_history library element) (\<lambda>_.
     add_elements env owner_history library rest)"

text \<open>Lines 24 to 184: the whole object graph, built in a new file.\<close>

definition build_library :: "env \<Rightarrow> BauteilElement list \<Rightarrow> exn + ifc_file" where
  "build_library env bauteil_elements =
     (case bind (library_header env) (\<lambda>(owner_history, library).
              add_elements env owner_history library bauteil_elements) [] of
        Inl e \<Rightarrow> Inl e
      | Inr (_, ifc_file) \<Rightarrow> Inr ifc_file)"

text \<open>
  What a call can change: the element list it is handed (a mutable Python list of
  objects holding mutable dicts) and the files on disk.  \<open>ifc_file.write\<close> is taken to
  store the whole graph under the path in one step.
\<close>

record world =
  elements :: "BauteilElement list"
  disk :: "string \<rightharpoonup> ifc_file"

definition create_ifc_library_from_bauteil_elements ::
  "env \<Rightarrow> string \<Rightarrow> world \<Rightarrow> (exn + ifc_file) \<times> world" where
  "create_ifc_library_from_bauteil_elements env output_path w =
     (case build_library env (elements w) of
        Inl e \<Rightarrow> (Inl e, w)
      | Inr ifc_file \<Rightarrow> (Inr ifc_file, w\<lparr>disk := (disk w)(output_path \<mapsto> ifc_file)\<rparr>))"

section \<open>\<open>attach_library_to_project\<close>\<close>

text \<open>
  The library file is only read; the instances are created in the project file, which is
  the state of the computation.  An attribute access that Python would refuse
  (an attribute of \<open>None\<close>, an attribute the instance's type does not have, a loop over
  \<open>None\<close>) raises.
\<close>

definition lift :: "exn + 'a \<Rightarrow> 'a build" where
  "lift r f = (case r of Inl e \<Rightarrow> Inl e | Inr x \<Rightarrow> Inr (x, f))"

text \<open>The instance a reference of the library file points to.\<close>

definition deref :: "ifc_file \<Rightarrow> eid \<Rightarrow> exn + ifc_entity" where
  "deref lib i = (if i < length lib then Inr (lib ! i) else Inl RuntimeError)"

text \<open>\<open>str(x)\<close> inside an f-string, for an optional string.\<close>

definition str_opt :: "string option \<Rightarrow> string" where
  "str_opt x = (case x of None \<Rightarrow> ''None'' | Some s \<Rightarrow> s)"

text \<open>\<open>ifcopenshell.open(path)\<close>\<close>

definition open_ifc :: "world \<Rightarrow> string \<Rightarrow> exn + ifc_file" where
  "open_ifc w path = (case disk w path of None \<Rightarrow> Inl OSError | Some f \<Rightarrow> Inr f)"

text \<open>Lines 262 to 266: the first material association whose related objects hold the
  wall type.\<close>

fun find_material_association :: "ifc_file \<Rightarrow> eid \<Rightarrow> eid list \<Rightarrow> exn + eid option" where
  "find_material_association lib wall_type [] = Inr None"
| "find_material_association lib wall_type (rel # rels) =
     (case deref lib rel of
        Inl e \<Rightarrow> Inl e
      | Inr (IfcRelAssociatesMaterial _ _ related _) \<Rightarrow>
          (case related of
             None \<Rightarrow> Inl TypeError
           | Some objs \<Rightarrow>
               if wall_type \<in> set objs then Inr (Some rel)
               else find_material_association lib wall_type rels)
      | Inr _ \<Rightarrow> Inl AttributeError)"

text \<open>Lines 297 to 315, one turn of the loop over the classification associations of the
  library file.\<close>

definition copy_classification :: "env \<Rightarrow> ifc_file \<Rightarrow> eid \<Rightarrow> eid \<Rightarrow> eid \<Rightarrow> eid \<Rightarrow> unit build" where
  "copy_classification env lib owner_history material new_material rel_classification =
     bind (lift (deref lib rel_classification)) (\<lambda>rel.
     case rel of
       IfcRelAssociatesClassification _ _ related relating \<Rightarrow>
         (case related of
            None \<Rightarrow> raise TypeError
          | Some objs \<Rightarrow>
              if material \<in> set objs then
                (case relating of
                   None \<Rightarrow> raise AttributeError
                 | Some r \<Rightarrow>
                     bind (lift (deref lib r)) (\<lambda>ref.
                     case ref of
                       IfcClassificationReference location identification nm \<Rightarrow>
                         bind (create_entity env
                                 (IfcClassificationReference location identification nm)) (\<lambda>new_ref.
                         bind (create_guid env) (\<lambda>g.
                         bind (create_entity env (IfcRelAssociatesClassification g owner_history
                                 (Some [new_material]) (Some new_ref))) (\<lambda>_.
                         ret ())))
                     | _ \<Rightarrow> raise AttributeError))
              else ret ())
     | _ \<Rightarrow> raise AttributeError)"

fun copy_classifications ::
  "env \<Rightarrow> ifc_file \<Rightarrow> eid \<Rightarrow> eid \<Rightarrow> eid \<Rightarrow> eid list \<Rightarrow> unit build" where
  "copy_classifications env lib owner_history material new_material [] = ret ()"
| "copy_classifications env lib owner_history material new_material (rel # rels) =
     bind (copy_classification env lib owner_history material new_material rel) (\<lambda>_.
     copy_classifications env lib owner_history material new_material rels)"

text \<open>Lines 286 to 325, one turn of the loop over the layers: \<open>None\<close> when the layer
  is passed over, the new layer otherwise.\<close>

definition copy_layer :: "env \<Rightarrow> ifc_file \<Rightarrow> eid \<Rightarrow> eid \<Rightarrow> eid option build" where
  "copy_layer env lib owner_history layer =
     bind (lift (deref lib layer)) (\<lambda>l.
     case l of
       IfcMaterialLayer material thickness layer_name \<Rightarrow>
         (case material of
            None \<Rightarrow> ret None
          | Some mat \<Rightarrow>
              bind (lift (deref lib mat)) (\<lambda>m.
              case m of
                IfcMaterial material_name \<Rightarrow>
                  bind (create_entity env (IfcMaterial material_name)) (\<lambda>new_material.
                  bind (copy_classifications env lib owner_history mat new_material
                          (by_type lib ''IfcRelAssociatesClassification'')) (\<lambda>_.
                  bind (create_entity env (IfcMaterialLayer (Some new_material) thickness layer_name))
                    (\<lambda>new_layer.
                  ret (Some new_layer))))
              | _ \<Rightarrow> raise AttributeError))
     | _ \<Rightarrow> raise AttributeError)"

fun copy_layers :: "env \<Rightarrow> ifc_file \<Rightarrow> eid \<Rightarrow> eid list \<Rightarrow> eid list \<Rightarrow> eid list build" where
  "copy_layers env lib owner_history [] new_layers = ret new_layers"
| "copy_layers env lib owner_history (layer # layers) new_layers =
     bind (copy_layer env lib owner_history layer) (\<lambda>r.
     copy_layers env lib owner_history layers
       (case r of None \<Rightarrow> new_layers | Some new_layer \<Rightarrow> new_layers @ [new_layer]))"

text \<open>Lines 261 to 364, one turn of the loop over the wall types of the library file.\<close>

definition copy_wall_type :: "env \<Rightarrow> ifc_file \<Rightarrow> eid \<Rightarrow> eid \<Rightarrow> eid \<Rightarrow> unit build" where
  "copy_wall_type env lib owner_history new_library_info wall_type =
     bind (lift (find_material_association lib wall_type (by_type lib ''IfcRelAssociatesMaterial'')))
       (\<lambda>material_association.
     case material_association of
       None \<Rightarrow> ret ()
     | Some rel \<Rightarrow>
         bind (lift (deref lib rel)) (\<lambda>assoc.
         case assoc of
           IfcRelAssociatesMaterial _ _ _ relating \<Rightarrow>
             (case relating of
                None \<Rightarrow> raise AttributeError
              | Some mls \<Rightarrow>
                  bind (lift (deref lib mls)) (\<lambda>material_layer_set.
                  case material_layer_set of
                    IfcMaterialLayerSet layer_set_name material_layers \<Rightarrow>
                      bind (create_entity env (IfcMaterialLayerSet layer_set_name None)) (\<lambda>new_mls.
                      case material_layers of
                        None \<Rightarrow> raise TypeError
                      | Some layers \<Rightarrow>
                          bind (copy_layers env lib owner_history layers []) (\<lambda>new_layers.
                          if new_layers = [] then ret ()
                          else
                            bind (set_MaterialLayers new_mls new_layers) (\<lambda>_.
                            bind (lift (deref lib wall_type)) (\<lambda>wt.
                            case wt of
                              IfcWallType _ _ wt_name wt_description _ _ _ _ wt_element_type _ \<Rightarrow>
                                bind (create_guid env) (\<lambda>g1.
                                bind (create_entity env (IfcWallType g1 owner_history wt_name
                                        wt_description [] [] [] [] wt_element_type ''STANDARD''))
                                  (\<lambda>new_wall_type.
                                bind (create_guid env) (\<lambda>g2.
                                bind (create_entity env (IfcRelAssociatesMaterial g2 owner_history
                                        (Some [new_wall_type]) (Some new_mls))) (\<lambda>_.
                                bind (create_guid env) (\<lambda>g3.
                                bind (create_entity env (IfcRelAssociatesLibrary g3 owner_history
                                        (''Association '' @ str_opt wt_name)
                                        (''Association to library for '' @ str_opt wt_name)
                                        [new_wall_type] new_library_info)) (\<lambda>_.
                                ret ()))))))
                            | _ \<Rightarrow> raise AttributeError))))
                  | _ \<Rightarrow> ret ()))
         | _ \<Rightarrow> raise AttributeError))"

fun copy_wall_types :: "env \<Rightarrow> ifc_file \<Rightarrow> eid \<Rightarrow> eid \<Rightarrow> eid list \<Rightarrow> unit build" where
  "copy_wall_types env lib owner_history new_library_info [] = ret ()"
| "copy_wall_types env lib owner_history new_library_info (wall_type # wall_types) =
     bind (copy_wall_type env lib owner_history new_library_info wall_type) (\<lambda>_.
     copy_wall_types env lib owner_history new_library_info wall_types)"

text \<open>Lines 230 to 243: the first owner history of the project file, or a new one.\<close>

definition get_or_create_owner_history :: "env \<Rightarrow> eid build" where
  "get_or_create_owner_history env project_file =
     (case by_type project_file ''IfcOwnerHistory'' of
        oh # _ \<Rightarrow> ret oh project_file
      | [] \<Rightarrow>
          bind (create_entity env (IfcPerson ''User'' ''Default'')) (\<lambda>person.
          bind (create_entity env (IfcOrganization (Some ''eLCA Material Library Creator'')))
            (\<lambda>organization.
          bind (create_entity env (IfcPersonAndOrganization person organization)) (\<lambda>person_and_org.
          bind (create_entity env (IfcApplication organization ''1.0''
                  ''eLCA Material Library Creator'' ''eLCA_Creator'')) (\<lambda>application.
          create_entity env (IfcOwnerHistory person_and_org application ''ADDED'' (now env))))))
            project_file)"

text \<open>Lines 246 to 364: the new library information and the copies of the wall types.\<close>

definition copy_library :: "env \<Rightarrow> ifc_file \<Rightarrow> eid \<Rightarrow> unit build" where
  "copy_library env lib library_info =
     bind (get_or_create_owner_history env) (\<lambda>owner_history.
     bind (lift (deref lib library_info)) (\<lambda>info.
     case info of
       IfcLibraryInformation info_name info_version publisher \<Rightarrow>
         (case publisher of
            None \<Rightarrow> raise AttributeError
          | Some p \<Rightarrow>
              bind (lift (deref lib p)) (\<lambda>pub.
              case pub of
                IfcOrganization publisher_name \<Rightarrow>
                  bind (create_entity env (IfcOrganization publisher_name)) (\<lambda>new_publisher.
                  bind (create_entity env (IfcLibraryInformation info_name info_version
                          (Some new_publisher))) (\<lambda>new_library_info.
                  copy_wall_types env lib owner_history new_library_info
                    (by_type lib ''IfcWallType'')))
              | _ \<Rightarrow> raise AttributeError))
     | _ \<Rightarrow> raise AttributeError))"

text \<open>
  Lines 203 to 364, the body of the \<open>try\<close> block up to the write: the project file
  object, and whether line 367 is reached (the two early returns of lines 217 and 227
  hand back the project file as opened and do not reach it).
\<close>

definition attach_graph :: "env \<Rightarrow> string \<Rightarrow> string \<Rightarrow> world \<Rightarrow> exn + (ifc_file \<times> bool)" where
  "attach_graph env ifc_project_path ifc_library_path w =
     (case open_ifc w ifc_project_path of
        Inl e \<Rightarrow> Inl e
      | Inr project_file \<Rightarrow>
          (case open_ifc w ifc_library_path of
             Inl e \<Rightarrow> Inl e
           | Inr library_file \<Rightarrow>
               (case by_type library_file ''IfcLibraryInformation'' of
                  [] \<Rightarrow> Inr (project_file, False)
                | library_info # _ \<Rightarrow>
                    (case by_type project_file ''IfcProject'' of
                       [] \<Rightarrow> Inr (project_file, False)
                     | project # _ \<Rightarrow>
                         (case copy_library env library_file library_info project_file of
                            Inl e \<Rightarrow> Inl e
                          | Inr (_, project_file') \<Rightarrow> Inr (project_file', True))))))"

text \<open>The whole function: \<open>except Exception\<close> turns every exception into the result
  \<open>None\<close>; the write of line 367 is the last step of the \<open>try\<close> block.\<close>

definition attach_library_to_project ::
  "env \<Rightarrow> string \<Rightarrow> string \<Rightarrow> world \<Rightarrow> ifc_file option \<times> world" where
  "attach_library_to_project env ifc_project_path ifc_library_path w =
     (case attach_graph env ifc_project_path ifc_library_path w of
        Inl e \<Rightarrow> (None, w)
      | Inr (project_file, reached_write) \<Rightarrow>
          if reached_write
          then (Some project_file, w\<lparr>disk := (disk w)(ifc_project_path \<mapsto> project_file)\<rparr>)
          else (Some project_file, w))"

section \<open>The XML layer matcher\<close>

text \<open>
  Modelled from the spec: the module \<open>elca_parser\<close> with the class
  \<open>ELCAComponentExtractor\<close> (its methods \<open>extract_bauteil_elements\<close> and
  \<open>get_layer_thickness_summary\<close>) is not among the sources.  Sections 3 and 4.2 of the
  specification describe it: a layer thickness record of the XML export is identified by an
  element key and a layer name and carries a thickness value and a unit; the matcher
  looks, for every record, for the component whose category and name match best and
  attaches the thickness converted to meters to it; unmatched records are counted and do
  not raise; the summary counts the XML elements seen, the layers with a thickness above
  zero and the matches.  The matching predicate is left open by the specification, so it
  is a parameter here, a choice made from the category codes and names only.
\<close>

record LayerThicknessRecord =
  element_key :: string
  layer_name :: string
  thickness_value :: "pyfloat option"
  thickness_unit :: string

text \<open>Modelled from the spec: the conversion of section 4.2, \<open>mm\<close> divides by 1000,
  \<open>cm\<close> by 100, \<open>m\<close> leaves the value, any other unit counts as \<open>mm\<close>, and a
  malformed value (\<open>None\<close>) gives the fixed default.\<close>

definition thickness_in_meters :: "LayerThicknessRecord \<Rightarrow> pyfloat" where
  "thickness_in_meters r =
     (case thickness_value r of
        None \<Rightarrow> Finite (1 / 100)
      | Some v \<Rightarrow>
          if thickness_unit r = ''mm'' then fdiv v 1000
          else if thickness_unit r = ''cm'' then fdiv v 100
          else if thickness_unit r = ''m'' then v
          else fdiv v 1000)"

text \<open>Modelled from the spec: what matching may look at, the category code and name of
  every element with the names of its components.\<close>

type_synonym match_keys = "(string \<times> string \<times> string option list) list"

definition keys_of :: "BauteilElement list \<Rightarrow> match_keys" where
  "keys_of es = map (\<lambda>e. (category_code e, BauteilElement.name e, map Component.name (components e))) es"

text \<open>Modelled from the spec: the thickness is attached in place to component \<open>j\<close> of
  element \<open>i\<close>.\<close>

definition attach_thickness :: "BauteilElement list \<Rightarrow> nat \<times> nat \<Rightarrow> pyfloat \<Rightarrow> BauteilElement list" where
  "attach_thickness es p t =
     (case p of (i, j) \<Rightarrow>
        if i < length es \<and> j < length (components (es ! i)) then
          es[i := (es ! i)\<lparr>components :=
                    (components (es ! i))[j := (components (es ! i) ! j)\<lparr>layer_thickness := Some t\<rparr>]\<rparr>]
        else es)"

text \<open>Modelled from the spec: one pass over the XML layer records.\<close>

fun match_layers ::
  "(match_keys \<Rightarrow> LayerThicknessRecord \<Rightarrow> (nat \<times> nat) option) \<Rightarrow> LayerThicknessRecord list \<Rightarrow>
   BauteilElement list \<Rightarrow> BauteilElement list" where
  "match_layers best [] es = es"
| "match_layers best (r # rs) es =
     match_layers best rs
       (case best (keys_of es) r of None \<Rightarrow> es | Some p \<Rightarrow> attach_thickness es p (thickness_in_meters r))"

text \<open>Modelled from the spec: the summary of section 4.2.  An XML element is its key with
  its layer records.\<close>

record layer_summary =
  total_elements :: nat
  total_layers :: nat
  total_matched :: nat

definition summarize ::
  "(match_keys \<Rightarrow> LayerThicknessRecord \<Rightarrow> (nat \<times> nat) option) \<Rightarrow>
   (string \<times> LayerThicknessRecord list) list \<Rightarrow> BauteilElement list \<Rightarrow> layer_summary" where
  "summarize best xml es =
     \<lparr>total_elements = length xml,
      total_layers = length (filter (\<lambda>r. positive (thickness_in_meters r)) (concat (map snd xml))),
      total_matched = length (filter (\<lambda>r. best (keys_of es) r \<noteq> None) (concat (map snd xml)))\<rparr>"

section \<open>The operators of the add-on\<close>

datatype level = INFO | WARNING | ERROR

datatype status = FINISHED | CANCELLED

text \<open>What an operator can change: the custom properties of the scene and the reports
  shown to the user.\<close>

record blender =
  scene :: "string \<rightharpoonup> string"
  reports :: "(level \<times> string) list"

text \<open>
  What the operators take from outside: whether the dependencies were installed at
  import, which paths exist, the two parsers and the matching choice of the missing
  extractor, \<open>pickle\<close> with \<open>base64\<close> (\<open>None\<close> when it raises), \<open>str\<close> of a summary and
  of an exception.
\<close>

record host =
  dependencies_installed :: bool
  path_exists :: "string \<Rightarrow> bool"
  parse_html :: "string \<Rightarrow> exn + BauteilElement list"
  parse_xml :: "string \<Rightarrow> exn + (string \<times> LayerThicknessRecord list) list"
  best_match :: "match_keys \<Rightarrow> LayerThicknessRecord \<Rightarrow> (nat \<times> nat) option"
  pickle_b64 :: "BauteilElement list \<Rightarrow> string option"
  str_summary :: "layer_summary \<Rightarrow> string"
  str_exn :: "exn \<Rightarrow> string"

text \<open>Modelled from the spec: \<open>ELCAComponentExtractor(html_path, xml_path)\<close> with its two
  results, the elements with the matched thicknesses and the summary.\<close>

definition extractor :: "host \<Rightarrow> string \<Rightarrow> string \<Rightarrow> exn + (BauteilElement list \<times> layer_summary)" where
  "extractor h html_path xml_path =
     (case parse_html h html_path of
        Inl e \<Rightarrow> Inl e
      | Inr es \<Rightarrow>
          (case parse_xml h xml_path of
             Inl e \<Rightarrow> Inl e
           | Inr xml \<Rightarrow>
               Inr (match_layers (best_match h) (concat (map snd xml)) es,
                    summarize (best_match h) xml es)))"

definition report :: "level \<Rightarrow> string \<Rightarrow> blender \<Rightarrow> blender" where
  "report l msg b = b\<lparr>reports := reports b @ [(l, msg)]\<rparr>"

definition set_prop :: "string \<Rightarrow> string \<Rightarrow> blender \<Rightarrow> blender" where
  "set_prop k v b = b\<lparr>scene := (scene b)(k \<mapsto> v)\<rparr>"

text \<open>Lines 168 to 178 of \<open>__init__.py\<close>: the components with a stored thickness
  above zero.\<close>

definition num_layers_with_thickness :: "BauteilElement list \<Rightarrow> nat" where
  "num_layers_with_thickness bauteil_elements =
     sum_list (map (\<lambda>element.
       length (filter (\<lambda>comp. case layer_thickness comp of None \<Rightarrow> False | Some t \<Rightarrow> positive t)
                 (components element))) bauteil_elements)"

text \<open>\<open>ELCA_OT_LoadProject.execute\<close>, lines 138 to 211.\<close>

definition load_project_execute :: "host \<Rightarrow> string \<Rightarrow> blender \<Rightarrow> status \<times> blender" where
  "load_project_execute h filepath b =
     (if \<not> dependencies_installed h then
        (CANCELLED,
         report ERROR ''Required dependencies are not installed. Check the console for details.'' b)
      else
        (case scene b ''elca_html_path'' of
           None \<Rightarrow> (CANCELLED, report ERROR ''Please load the HTML results file first!'' b)
         | Some html_path \<Rightarrow>
             if html_path = [] \<or> \<not> path_exists h html_path then
               (CANCELLED, report ERROR ''Please load the HTML results file first!'' b)
             else
               (let b1 = set_prop ''elca_xml_path'' filepath b in
                case extractor h html_path filepath of
                  Inl e \<Rightarrow>
                    (CANCELLED, report ERROR (''Error processing eLCA project: '' @ str_exn h e) b1)
                | Inr (bauteil_elements, layer_summary) \<Rightarrow>
                    (let b2 =
                       (if total_layers layer_summary > 0 then
                          set_prop ''elca_layer_data'' (str_summary h layer_summary)
                            (set_prop ''elca_matched_data'' ''true''
                               (report INFO
                                  (''Matched '' @ str_nat (num_layers_with_thickness bauteil_elements) @
                                   '' components with layer thicknesses from '' @
                                   str_nat (total_elements layer_summary) @ '' XML elements'') b1))
                        else
                          set_prop ''elca_matched_data'' ''false''
                            (report WARNING ''No layer thickness data found in XML file'' b1));
                         b3 =
                       (case pickle_b64 h bauteil_elements of
                          Some serialized_data \<Rightarrow> set_prop ''elca_bauteil_elements'' serialized_data b2
                        | None \<Rightarrow> set_prop ''elca_bauteil_elements'' [] b2)
                     in (FINISHED, b3)))))"

section \<open>Notions used in the statements\<close>

text \<open>The elements that emission does not skip (line 72).\<close>

abbreviation (input) with_components :: "BauteilElement list \<Rightarrow> BauteilElement list" where
  "with_components es \<equiv> filter (\<lambda>e. components e \<noteq> []) es"

text \<open>An instance that is neither a layer set nor a wall type.\<close>

abbreviation (input) plain :: "ifc_entity \<Rightarrow> bool" where
  "plain e \<equiv> type_name e \<noteq> ''IfcMaterialLayerSet'' \<and> type_name e \<noteq> ''IfcWallType''"

text \<open>The nine instances that lines 28 to 67 create, as the file holds them when the
  loop starts: the owner history is at position 4, the library at position 8.\<close>

definition header_entities :: "env \<Rightarrow> ifc_file" where
  "header_entities env =
    [IfcPerson ''User'' ''Default'',
     IfcOrganization (Some ''eLCA Material Library Creator''),
     IfcPersonAndOrganization 0 1,
     IfcApplication 1 ''1.0'' ''eLCA Material Library Creator'' ''eLCA_Creator'',
     IfcOwnerHistory 2 3 ''ADDED'' (now env),
     IfcUnitAssignment [6],
     IfcSIUnit ''LENGTHUNIT'' ''METRE'',
     IfcProject (guid env 7) ''eLCA Material Library'' 4 5,
     IfcLibraryInformation (Some ''eLCA_Material_Library'') (Some ''1.0'') (Some 1)]"


section \<open>Properties of the thickness resolution\<close>

lemma split_from_word:
  "\<forall>c\<in>set w. \<not> is_space c \<Longrightarrow> split_from cur (w @ rest) = split_from (rev w @ cur) rest"
  by (induction w arbitrary: cur) auto

lemma split_from_spaces:
  "\<forall>c\<in>set sp. is_space c \<Longrightarrow> split_from [] (sp @ rest) = split_from [] rest"
  by (induction sp) auto

lemma split_two:
  assumes "n \<noteq> []" "u \<noteq> []" "\<forall>c\<in>set n. \<not> is_space c" "\<forall>c\<in>set u. \<not> is_space c"
    and "sep \<noteq> []" "\<forall>c\<in>set sep. is_space c"
  shows "split (n @ sep @ u) = [n, u]"
proof -
  obtain s sep' where sep: "sep = s # sep'" using assms(5) by (cases sep) auto
  have "split (n @ sep @ u) = split_from (rev n) (sep @ u)"
    using split_from_word [OF assms(3), of "[]" "sep @ u"] by (simp add: split_def)
  also have "\<dots> = n # split_from [] (sep' @ u)"
    using assms(1,6) by (simp add: sep)
  also have "split_from [] (sep' @ u) = split_from [] u"
    using assms(6) by (intro split_from_spaces) (simp add: sep)
  also have "split_from [] u = [u]"
    using split_from_word [OF assms(4), of "[]" "[]"] assms(2) by simp
  finally show ?thesis .
qed

lemma float_error: "float s = Inl e \<Longrightarrow> e = ValueError"
  by (auto simp: float_def Let_def split: if_splits prod.splits option.splits)

lemma parse_quantity_error: "parse_quantity q = Inl e \<Longrightarrow> e = ValueError \<or> e = IndexError"
  by (auto simp: parse_quantity_def Let_def split: list.splits sum.splits if_splits dest: float_error)

lemma resolve_thickness_total: "\<exists>t. resolve_thickness qty = Inr t"
  by (auto simp: resolve_thickness_def Let_def split: sum.splits dest: parse_quantity_error)

lemma resolve_thickness_parsed:
  assumes "split q = w # ws" "float (replace_comma w) = Inr v"
  shows "resolve_thickness (Some q) =
           Inr (let u = (case ws of [] \<Rightarrow> ''mm'' | u # _ \<Rightarrow> u) in
                if lower u = ''mm'' then fdiv v 1000
                else if lower u = ''cm'' then fdiv v 100
                else if lower u = ''m'' then v else fdiv v 1000)"
proof -
  have "q \<noteq> []" using assms(1) by (auto simp: split_def)
  then show ?thesis using assms
    by (simp add: resolve_thickness_def parse_quantity_def Let_def)
qed

lemma resolve_thickness_unparsed:
  assumes "q \<noteq> []" "\<forall>w ws. split q = w # ws \<longrightarrow> (\<exists>e. float (replace_comma w) = Inl e)"
  shows "resolve_thickness (Some q) = Inr (Finite (1 / 100))"
proof (cases "split q")
  case Nil
  with assms(1) show ?thesis
    by (simp add: resolve_thickness_def parse_quantity_def)
next
  case (Cons w ws)
  with assms(2) obtain e where e: "float (replace_comma w) = Inl e" by blast
  from float_error [OF e] have "float (replace_comma w) = Inl ValueError" using e by simp
  with assms(1) Cons show ?thesis
    by (simp add: resolve_thickness_def parse_quantity_def)
qed

text \<open>
  C1.  A quantity string made of a number, white space and a unit resolves, in meters, to
  the number divided by 1000 for the unit \<open>mm\<close>, divided by 100 for \<open>cm\<close>, unchanged
  for \<open>m\<close>, and divided by 1000 for any other unit.  The number is what \<open>float\<close> reads
  after every comma has become a point, so a decimal comma is accepted; the unit is
  compared after \<open>lower()\<close>.  The instance below is the string \<open>200,00 mm\<close>, which
  resolves to 0.2.
\<close>

theorem thickness_by_unit:
  assumes "n \<noteq> []" "u \<noteq> []" "\<forall>c\<in>set n. \<not> is_space c" "\<forall>c\<in>set u. \<not> is_space c"
    and "sep \<noteq> []" "\<forall>c\<in>set sep. is_space c"
    and "float (replace_comma n) = Inr v"
  shows "resolve_thickness (Some (n @ sep @ u)) =
           Inr (if lower u = ''mm'' then fdiv v 1000
                else if lower u = ''cm'' then fdiv v 100
                else if lower u = ''m'' then v
                else fdiv v 1000)"
  using resolve_thickness_parsed [OF split_two [OF assms(1-6)] assms(7)] by simp

lemma float_200: "float (replace_comma ''200,00'') = Inr (Finite 200)"
  by (simp add: replace_comma_def float_def decimal_def exponent_def is_digit_def digits_val_def
      digit_val_def lower_def lower_char_def)

theorem thickness_by_unit_witness:
  "resolve_thickness (Some ''200,00 mm'') = Inr (Finite (1 / 5))"
  using thickness_by_unit [of "''200,00''" "''mm''" "'' ''" "Finite 200"] float_200
  by (simp add: is_space_def lower_def lower_char_def)

section \<open>Properties of the emission\<close>

subsection \<open>Stepping through a computation\<close>

lemma bind_Inr:
  "bind m k f = Inr (y, f'') \<longleftrightarrow> (\<exists>x f'. m f = Inr (x, f') \<and> k x f' = Inr (y, f''))"
  by (auto simp: bind_def split: sum.splits)

lemma ret_Inr: "ret x f = Inr (y, f') \<longleftrightarrow> y = x \<and> f' = f"
  by (auto simp: ret_def)

lemma raise_Inr: "raise e f \<noteq> Inr r"
  by (simp add: raise_def)

lemma create_entity_Inr:
  "create_entity env e f = Inr (i, f') \<longleftrightarrow> \<not> rejects env e \<and> i = length f \<and> f' = f @ [e]"
  by (auto simp: create_entity_def)

lemma create_guid_Inr: "create_guid env f = Inr (g, f') \<longleftrightarrow> g = guid env (length f) \<and> f' = f"
  by (auto simp: create_guid_def)

lemma set_MaterialLayers_Inr:
  "set_MaterialLayers i ls f = Inr (u, f') \<longleftrightarrow>
     i < length f \<and> (\<exists>n old. f ! i = IfcMaterialLayerSet n old \<and> f' = f[i := IfcMaterialLayerSet n (Some ls)])"
  by (auto simp: set_MaterialLayers_def split: ifc_entity.splits)

lemma set_Units_Inr:
  "set_Units i us f = Inr (u, f') \<longleftrightarrow>
     i < length f \<and> (\<exists>old. f ! i = IfcUnitAssignment old \<and> f' = f[i := IfcUnitAssignment us])"
  by (auto simp: set_Units_def split: ifc_entity.splits)

lemmas step_simps = bind_Inr ret_Inr raise_Inr create_entity_Inr create_guid_Inr

subsection \<open>What one component adds\<close>

lemma add_process_appends:
  "add_process env m p f = Inr (u, f') \<Longrightarrow> \<exists>new. f' = f @ new \<and> list_all plain new"
  by (auto simp: add_process_def step_simps  split: option.splits if_splits)

lemma add_processes_appends:
  "add_processes env m ps f = Inr (u, f') \<Longrightarrow> \<exists>new. f' = f @ new \<and> list_all plain new"
proof (induction ps arbitrary: f)
  case Nil
  then show ?case by (simp add: ret_Inr)
next
  case (Cons p ps)
  from Cons.prems obtain f1 where 1: "add_process env m p f = Inr ((), f1)"
    and 2: "add_processes env m ps f1 = Inr (u, f')"
    by (auto simp: bind_Inr)
  from add_process_appends [OF 1] Cons.IH [OF 2] show ?case by auto
qed

lemma add_component_result:
  assumes "add_component env idx c f = Inr (l, f')"
  shows "\<exists>t new. resolve_thickness (quantity c) = Inr t \<and> list_all plain new
           \<and> f' = f @ new @ [IfcMaterialLayer (Some (length f)) (Some t) (Some (component_name idx c))]
           \<and> l = length f + length new"
proof -
  obtain t where t: "resolve_thickness (quantity c) = Inr t"
    using resolve_thickness_total by blast
  from assms t obtain f1 f2 where
    1: "f1 = f @ [IfcMaterial (Some (component_name idx c))]"
    and 2: "add_processes env (length f) (lifecycle_processes c) f1 = Inr ((), f2)"
    and 3: "l = length f2"
       "f' = f2 @ [IfcMaterialLayer (Some (length f)) (Some t) (Some (component_name idx c))]"
    by (auto simp: add_component_def step_simps )
  from add_processes_appends [OF 2] obtain new where "f2 = f1 @ new" "list_all plain new"
    by blast
  with 1 3 t show ?thesis
    by (intro exI [of _ t] exI [of _ "IfcMaterial (Some (component_name idx c)) # new"])
       simp
qed

lemma add_component_appends:
  "add_component env idx c f = Inr (l, f') \<Longrightarrow> \<exists>new. f' = f @ new \<and> list_all plain new"
  by (drule add_component_result) auto

lemma add_components_appends:
  "add_components env idx cs acc f = Inr (ls, f') \<Longrightarrow>
     \<exists>new. f' = f @ new \<and> list_all plain new \<and> length ls = length acc + length cs"
proof (induction cs arbitrary: idx acc f)
  case Nil
  then show ?case by (simp add: ret_Inr)
next
  case (Cons c cs)
  from Cons.prems obtain l f1 where 1: "add_component env idx c f = Inr (l, f1)"
    and 2: "add_components env (Suc idx) cs (acc @ [l]) f1 = Inr (ls, f')"
    by (auto simp: bind_Inr)
  from add_component_appends [OF 1] Cons.IH [OF 2] show ?case by auto
qed


subsection \<open>Counting instances by type\<close>

lemma by_type_snoc:
  "by_type (f @ [e]) T = by_type f T @ (if type_name e = T then [length f] else [])"
  by (auto simp: by_type_def nth_append intro!: filter_cong)

lemma length_by_type: "length (by_type f T) = length (filter (\<lambda>e. type_name e = T) f)"
proof (induction f rule: rev_induct)
  case Nil
  show ?case by (simp add: by_type_def)
next
  case (snoc e f)
  then show ?case by (simp add: by_type_snoc)
qed

lemma count_update:
  "i < length f \<Longrightarrow> P (f ! i) = P e \<Longrightarrow> length (filter P (f[i := e])) = length (filter P f)"
proof (induction f arbitrary: i)
  case Nil
  then show ?case by simp
next
  case (Cons x xs)
  then show ?case by (cases i) auto
qed

lemma count_plain:
  "list_all plain new \<Longrightarrow> T = ''IfcMaterialLayerSet'' \<or> T = ''IfcWallType'' \<Longrightarrow>
     filter (\<lambda>e. type_name e = T) new = []"
  by (induction new) auto

lemma add_element_count:
  assumes "add_element env oh lib el f = Inr (u, f')"
    and T: "T = ''IfcMaterialLayerSet'' \<or> T = ''IfcWallType''"
  shows "length (filter (\<lambda>e. type_name e = T) f') =
           length (filter (\<lambda>e. type_name e = T) f) + (if components el = [] then 0 else 1)"
proof (cases "components el = []")
  case True
  with assms show ?thesis by (simp add: add_element_def ret_Inr)
next
  case False
  let ?P = "\<lambda>e. type_name e = T"
  let ?ls = "IfcMaterialLayerSet (Some (category_code el @ '' '' @ BauteilElement.name el)) None"
  from assms(1) False obtain ls f2 where
    2: "add_components env 0 (components el) [] (f @ [?ls]) = Inr (ls, f2)"
    and rest: "(if ls = [] then ret () else
         bind (set_MaterialLayers (length f) ls) (\<lambda>_.
           let wall_type_name = category_code el @ '' '' @ BauteilElement.name el in
           bind (create_guid env) (\<lambda>g1.
           bind (create_entity env (IfcWallType g1 oh (Some wall_type_name)
                   (Some (''Wall type for '' @ BauteilElement.name el)) [] [] [] []
                   (Some wall_type_name) ''STANDARD'')) (\<lambda>wall_type.
           bind (create_guid env) (\<lambda>g2.
           bind (create_entity env (IfcRelAssociatesMaterial g2 oh (Some [wall_type])
                   (Some (length f)))) (\<lambda>_.
           bind (create_guid env) (\<lambda>g3.
           bind (create_entity env (IfcRelAssociatesLibrary g3 oh
                   (''Association '' @ BauteilElement.name el)
                   (''Association to library for '' @ BauteilElement.name el)
                   [wall_type] lib)) (\<lambda>_.
           ret ())))))))) f2 = Inr (u, f')"
    by (auto simp: add_element_def Let_def bind_Inr create_entity_Inr)
  from add_components_appends [OF 2] obtain new where
    new: "f2 = f @ [?ls] @ new" "list_all plain new" "length ls = length (components el)"
    by auto
  from new(3) False have "ls \<noteq> []" by auto
  with rest obtain f3 w1 r1 r2 where
    3: "set_MaterialLayers (length f) ls f2 = Inr ((), f3)"
    and 4: "f' = f3 @ [w1, r1, r2]" "type_name w1 = ''IfcWallType''"
      "type_name r1 = ''IfcRelAssociatesMaterial''" "type_name r2 = ''IfcRelAssociatesLibrary''"
    by (auto simp: Let_def step_simps)
  from 3 obtain n old where 5: "f2 ! length f = IfcMaterialLayerSet n old"
    "f3 = f2[length f := IfcMaterialLayerSet n (Some ls)]"
    by (auto simp: set_MaterialLayers_Inr)
  have "length (filter ?P f3) = length (filter ?P f2)"
    unfolding 5(2) by (rule count_update) (simp_all add: new(1) 5(1) [unfolded new(1)])
  also have "\<dots> = length (filter ?P f) + (if T = ''IfcMaterialLayerSet'' then 1 else 0)"
    using count_plain [OF new(2) T] T by (auto simp: new(1))
  finally show ?thesis using 4 T False by auto
qed


lemma add_elements_count:
  assumes "add_elements env oh lib es f = Inr (u, f')"
    and T: "T = ''IfcMaterialLayerSet'' \<or> T = ''IfcWallType''"
  shows "length (filter (\<lambda>e. type_name e = T) f') =
           length (filter (\<lambda>e. type_name e = T) f) + length (with_components es)"
  using assms(1)
proof (induction es arbitrary: f)
  case Nil
  then show ?case by (simp add: ret_Inr)
next
  case (Cons el es)
  from Cons.prems obtain f1 where 1: "add_element env oh lib el f = Inr ((), f1)"
    and 2: "add_elements env oh lib es f1 = Inr (u, f')"
    by (auto simp: bind_Inr)
  from add_element_count [OF 1 T] Cons.IH [OF 2] show ?case by simp
qed

lemma add_elements_skip:
  "add_elements env oh lib (with_components es) = add_elements env oh lib es"
proof (induction es)
  case Nil
  show ?case by simp
next
  case (Cons el es)
  show ?case
  proof (cases "components el = []")
    case True
    have "bind (add_element env oh lib el) (\<lambda>_. add_elements env oh lib es) = add_elements env oh lib es"
      by (rule ext) (simp add: add_element_def True bind_def ret_def)
    with True Cons show ?thesis by simp
  next
    case False
    with Cons show ?thesis by simp
  qed
qed

lemma library_header_Inr:
  "library_header env [] = Inr (r, f) \<Longrightarrow> r = (4, 8) \<and> f = header_entities env"
  by (auto simp: library_header_def step_simps set_Units_Inr header_entities_def eval_nat_numeral)

lemma library_header_ok:
  "\<forall>e. \<not> rejects env e \<Longrightarrow> library_header env [] = Inr ((4, 8), header_entities env)"
  by (simp add: library_header_def bind_def create_entity_def set_Units_def create_guid_def ret_def
      header_entities_def eval_nat_numeral)

lemma build_library_Inr:
  "build_library env es = Inr f \<Longrightarrow> add_elements env 4 8 es (header_entities env) = Inr ((), f)"
  by (auto simp: build_library_def bind_Inr split: sum.splits dest!: library_header_Inr)

lemma build_library_ok:
  "\<forall>e. \<not> rejects env e \<Longrightarrow>
     build_library env es =
       (case add_elements env 4 8 es (header_entities env) of Inl e \<Rightarrow> Inl e | Inr (_, f) \<Rightarrow> Inr f)"
  by (simp add: build_library_def bind_def library_header_ok)

lemma build_library_skip: "build_library env (with_components es) = build_library env es"
  by (simp add: build_library_def add_elements_skip)

lemma header_count:
  "T = ''IfcMaterialLayerSet'' \<or> T = ''IfcWallType'' \<Longrightarrow>
     filter (\<lambda>e. type_name e = T) (header_entities env) = []"
  by (auto simp: header_entities_def)


subsection \<open>Nothing but a refused instance stops the construction\<close>

lemma add_process_ok:
  "\<forall>e. \<not> rejects env e \<Longrightarrow> \<exists>f'. add_process env m p f = Inr ((), f')"
  by (simp add: add_process_def bind_def create_entity_def ret_def split: option.splits)

lemma add_processes_ok:
  "\<forall>e. \<not> rejects env e \<Longrightarrow> \<exists>f'. add_processes env m ps f = Inr ((), f')"
proof (induction ps arbitrary: f)
  case Nil
  show ?case by (simp add: ret_def)
next
  case (Cons p ps)
  from add_process_ok [OF Cons.prems] obtain f1 where "add_process env m p f = Inr ((), f1)"
    by blast
  moreover from Cons.IH [OF Cons.prems] obtain f2 where "add_processes env m ps f1 = Inr ((), f2)"
    by blast
  ultimately show ?case by (simp add: bind_def)
qed

lemma add_component_ok:
  assumes "\<forall>e. \<not> rejects env e"
  shows "\<exists>l f'. add_component env idx c f = Inr (l, f')"
proof -
  obtain t where t: "resolve_thickness (quantity c) = Inr t"
    using resolve_thickness_total by blast
  obtain f2 where "add_processes env (length f) (lifecycle_processes c)
      (f @ [IfcMaterial (Some (component_name idx c))]) = Inr ((), f2)"
    using add_processes_ok [OF assms] by blast
  with assms t show ?thesis
    by (simp add: add_component_def bind_def create_entity_def)
qed

lemma add_components_ok:
  assumes "\<forall>e. \<not> rejects env e"
  shows "\<exists>ls f'. add_components env idx cs acc f = Inr (ls, f')"
proof (induction cs arbitrary: idx acc f)
  case Nil
  show ?case by (simp add: ret_def)
next
  case (Cons c cs)
  from add_component_ok [OF assms] obtain l f1 where "add_component env idx c f = Inr (l, f1)"
    by blast
  moreover from Cons.IH obtain ls f2 where
    "add_components env (Suc idx) cs (acc @ [l]) f1 = Inr (ls, f2)"
    by blast
  ultimately show ?case by (simp add: bind_def)
qed

lemma add_element_ok:
  assumes "\<forall>e. \<not> rejects env e"
  shows "\<exists>f'. add_element env oh lib el f = Inr ((), f')"
proof (cases "components el = []")
  case True
  then show ?thesis by (simp add: add_element_def ret_def)
next
  case False
  let ?ls = "IfcMaterialLayerSet (Some (category_code el @ '' '' @ BauteilElement.name el)) None"
  from add_components_ok [OF assms] obtain ls f2 where
    2: "add_components env 0 (components el) [] (f @ [?ls]) = Inr (ls, f2)"
    by blast
  from add_components_appends [OF 2] obtain new where
    new: "f2 = f @ [?ls] @ new" "length ls = length (components el)"
    by auto
  from new(2) False have ls: "ls \<noteq> []" by auto
  have 3: "set_MaterialLayers (length f) ls f2 =
      Inr ((), f2[length f := IfcMaterialLayerSet (Some (category_code el @ '' '' @ BauteilElement.name el)) (Some ls)])"
    by (simp add: set_MaterialLayers_def new(1))
  show ?thesis
    using assms False 2 ls 3
    by (simp add: add_element_def bind_def create_entity_def create_guid_def ret_def Let_def)
qed

lemma add_elements_ok:
  assumes "\<forall>e. \<not> rejects env e"
  shows "\<exists>f'. add_elements env oh lib es f = Inr ((), f')"
proof (induction es arbitrary: f)
  case Nil
  show ?case by (simp add: ret_def)
next
  case (Cons el es)
  from add_element_ok [OF assms] obtain f1 where "add_element env oh lib el f = Inr ((), f1)"
    by blast
  moreover from Cons.IH obtain f2 where "add_elements env oh lib es f1 = Inr ((), f2)"
    by blast
  ultimately show ?case by (simp add: bind_def)
qed

lemma build_library_total:
  assumes "\<forall>e. \<not> rejects env e"
  shows "\<exists>f. build_library env es = Inr f"
proof -
  from add_elements_ok [OF assms] obtain f where
    "add_elements env 4 8 es (header_entities env) = Inr ((), f)"
    by blast
  then show ?thesis by (simp add: build_library_ok [OF assms])
qed

subsection \<open>The stored thickness is not read\<close>

lemma component_name_thickness [simp]:
  "component_name idx (c\<lparr>layer_thickness := x\<rparr>) = component_name idx c"
  by (simp add: component_name_def)

lemma add_component_thickness:
  "add_component env idx (c\<lparr>layer_thickness := x\<rparr>) = add_component env idx c"
  by (simp add: add_component_def split: sum.splits)

lemma add_components_thickness:
  "add_components env idx (map (\<lambda>c. c\<lparr>layer_thickness := th c\<rparr>) cs) acc =
   add_components env idx cs acc"
  by (induction cs arbitrary: idx acc) (simp_all add: add_component_thickness)

lemma add_element_thickness:
  "add_element env oh lib (el\<lparr>components := map (\<lambda>c. c\<lparr>layer_thickness := th c\<rparr>) (components el)\<rparr>) =
   add_element env oh lib el"
  by (simp add: add_element_def add_components_thickness Let_def cong: if_cong)

lemma add_elements_thickness:
  "add_elements env oh lib
     (map (\<lambda>el. el\<lparr>components := map (\<lambda>c. c\<lparr>layer_thickness := th el c\<rparr>) (components el)\<rparr>) es) =
   add_elements env oh lib es"
  by (induction es) (simp_all add: add_element_thickness)

lemma build_library_thickness:
  "build_library env
     (map (\<lambda>el. el\<lparr>components := map (\<lambda>c. c\<lparr>layer_thickness := th el c\<rparr>) (components el)\<rparr>) es) =
   build_library env es"
  by (simp add: build_library_def add_elements_thickness)

lemma nonneg_fdiv: "0 < k \<Longrightarrow> nonneg v \<Longrightarrow> nonneg (fdiv v k)"
  by (cases v) simp_all


text \<open>
  C2.  Thickness resolution raises for no quantity at all.  A component whose quantity
  string is present and not empty but cannot be parsed (it has no word at all, or
  \<open>float\<close> raises on its first word) gets the default thickness 0.01, and unless ifcopenshell
  refuses an instance, the component's material layer is created with that thickness, so
  the loop goes on.  A string with a number and no unit is not a failure: its unit is
  taken to be \<open>mm\<close>.
\<close>

theorem unparseable_quantity_default:
  assumes "quantity c = Some q" "q \<noteq> []"
    and "\<forall>w ws. split q = w # ws \<longrightarrow> (\<exists>e. float (replace_comma w) = Inl e)"
    and "\<forall>e. \<not> rejects env e"
  shows "(\<exists>t. resolve_thickness qty = Inr t) \<and>
         resolve_thickness (quantity c) = Inr (Finite (1 / 100)) \<and>
         (\<exists>l f'. add_component env idx c f = Inr (l, f') \<and> l < length f' \<and>
            f' ! l = IfcMaterialLayer (Some (length f)) (Some (Finite (1 / 100)))
                       (Some (component_name idx c)))"
proof -
  have t: "resolve_thickness (quantity c) = Inr (Finite (1 / 100))"
    using resolve_thickness_unparsed [OF assms(2,3)] assms(1) by simp
  from add_component_ok [OF assms(4)] obtain l f' where r: "add_component env idx c f = Inr (l, f')"
    by blast
  from add_component_result [OF r] t have "l < length f' \<and>
      f' ! l = IfcMaterialLayer (Some (length f)) (Some (Finite (1 / 100))) (Some (component_name idx c))"
    by (auto simp: nth_append)
  with t r resolve_thickness_total [of qty] show ?thesis by blast
qed

lemma split_abc: "split ''abc mm'' = [''abc'', ''mm'']"
  by (simp add: split_def is_space_def)

lemma float_abc: "float (replace_comma ''abc'') = Inl ValueError"
  by (simp add: replace_comma_def float_def decimal_def is_digit_def lower_def lower_char_def)

theorem unparseable_quantity_default_witness:
  "\<exists>l f'. add_component \<lparr>guid = (\<lambda>n. ''0''), now = 0, rejects = (\<lambda>e. False)\<rparr> 0
      \<lparr>Component.name = Some ''Brick'', quantity = Some ''abc mm'', layer_thickness = None,
        lifecycle_processes = []\<rparr> [] = Inr (l, f') \<and>
     f' ! l = IfcMaterialLayer (Some 0) (Some (Finite (1 / 100))) (Some ''Brick'')"
  using unparseable_quantity_default [where
      c = "\<lparr>Component.name = Some ''Brick'', quantity = Some ''abc mm'', layer_thickness = None,
        lifecycle_processes = []\<rparr>" and q = "''abc mm''" and qty = None and idx = 0 and f = "[]"
      and env = "\<lparr>guid = (\<lambda>n. ''0''), now = 0, rejects = (\<lambda>e. False)\<rparr>"]
  by (auto simp: split_abc float_abc component_name_def)

text \<open>
  C3.  The thickness of an emitted material layer comes from the \<open>quantity\<close> string
  alone: changing the \<open>layer_thickness\<close> values of the components changes neither the
  library nor what one component adds; the layer created for a component carries the
  thickness resolved from its quantity string, which is 0.0 (not 0.01) when the string is
  missing or empty; and the layer is created whenever ifcopenshell refuses no instance.
\<close>

theorem layer_thickness_from_quantity_only:
  "build_library env
     (map (\<lambda>el. el\<lparr>components := map (\<lambda>c. c\<lparr>layer_thickness := th el c\<rparr>) (components el)\<rparr>) es) =
   build_library env es \<and>
   add_component env idx (c\<lparr>layer_thickness := x\<rparr>) f = add_component env idx c f \<and>
   (\<forall>l f'. add_component env idx c f = Inr (l, f') \<longrightarrow>
      (\<exists>t. resolve_thickness (quantity c) = Inr t \<and> l < length f' \<and>
         f' ! l = IfcMaterialLayer (Some (length f)) (Some t) (Some (component_name idx c)) \<and>
         (quantity c = None \<or> quantity c = Some [] \<longrightarrow> t = Finite 0))) \<and>
   ((\<forall>e. \<not> rejects env e) \<longrightarrow> (\<exists>l f'. add_component env idx c f = Inr (l, f')))"
proof (intro conjI allI impI)
  show "build_library env
     (map (\<lambda>el. el\<lparr>components := map (\<lambda>c. c\<lparr>layer_thickness := th el c\<rparr>) (components el)\<rparr>) es) =
   build_library env es"
    by (rule build_library_thickness)
  show "add_component env idx (c\<lparr>layer_thickness := x\<rparr>) f = add_component env idx c f"
    by (simp add: add_component_thickness)
next
  fix l f'
  assume r: "add_component env idx c f = Inr (l, f')"
  from add_component_result [OF r] obtain t new where
    t: "resolve_thickness (quantity c) = Inr t"
    and f': "f' = f @ new @ [IfcMaterialLayer (Some (length f)) (Some t) (Some (component_name idx c))]"
    and l: "l = length f + length new"
    by blast
  have "quantity c = None \<or> quantity c = Some [] \<longrightarrow> t = Finite 0"
    using t by (auto simp: resolve_thickness_def)
  with t f' l show "\<exists>t. resolve_thickness (quantity c) = Inr t \<and> l < length f' \<and>
         f' ! l = IfcMaterialLayer (Some (length f)) (Some t) (Some (component_name idx c)) \<and>
         (quantity c = None \<or> quantity c = Some [] \<longrightarrow> t = Finite 0)"
    by (auto simp: nth_append)
next
  assume "\<forall>e. \<not> rejects env e"
  then show "\<exists>l f'. add_component env idx c f = Inr (l, f')"
    by (rule add_component_ok)
qed

theorem layer_thickness_from_quantity_only_witness:
  "\<exists>l f'. add_component \<lparr>guid = (\<lambda>n. ''0''), now = 0, rejects = (\<lambda>e. False)\<rparr> 0
      \<lparr>Component.name = Some ''Brick'', quantity = None, layer_thickness = Some (Finite (1 / 5)),
        lifecycle_processes = []\<rparr> [] = Inr (l, f') \<and>
     f' ! l = IfcMaterialLayer (Some 0) (Some (Finite 0)) (Some ''Brick'')"
  using layer_thickness_from_quantity_only [where
      env = "\<lparr>guid = (\<lambda>n. ''0''), now = 0, rejects = (\<lambda>e. False)\<rparr>" and idx = 0 and f = "[]" and
      th = "\<lambda>el c. None" and es = "[]" and x = None and
      c = "\<lparr>Component.name = Some ''Brick'', quantity = None, layer_thickness = Some (Finite (1 / 5)),
        lifecycle_processes = []\<rparr>"]
  by (auto simp: component_name_def resolve_thickness_def)

text \<open>
  C4.  Emission returns unless ifcopenshell refuses an instance.  When it returns, the
  file written under the output path holds one
  \<open>IfcMaterialLayerSet\<close> and one \<open>IfcWallType\<close> for each element with at least one
  component, and it is the very file that emission builds from the list without the
  elements that have no component: those are skipped entirely.
\<close>

theorem one_layer_set_and_wall_type_per_element:
  "(\<forall>f w'. create_ifc_library_from_bauteil_elements env output_path w = (Inr f, w') \<longrightarrow>
      disk w' output_path = Some f \<and>
      length (by_type f ''IfcMaterialLayerSet'') = length (with_components (elements w)) \<and>
      length (by_type f ''IfcWallType'') = length (with_components (elements w)) \<and>
      build_library env (with_components (elements w)) = Inr f) \<and>
   ((\<forall>e. \<not> rejects env e) \<longrightarrow>
      (\<exists>f w'. create_ifc_library_from_bauteil_elements env output_path w = (Inr f, w')))"
proof (intro conjI allI impI)
  fix f w'
  assume run: "create_ifc_library_from_bauteil_elements env output_path w = (Inr f, w')"
  then have b: "build_library env (elements w) = Inr f"
    and w': "w' = w\<lparr>disk := (disk w)(output_path \<mapsto> f)\<rparr>"
    by (auto simp: create_ifc_library_from_bauteil_elements_def split: sum.splits)
  note loop = build_library_Inr [OF b]
  show "disk w' output_path = Some f"
    by (simp add: w')
  show "length (by_type f ''IfcMaterialLayerSet'') = length (with_components (elements w))"
    using add_elements_count [OF loop, of "''IfcMaterialLayerSet''"]
    by (simp add: length_by_type header_count)
  show "length (by_type f ''IfcWallType'') = length (with_components (elements w))"
    using add_elements_count [OF loop, of "''IfcWallType''"]
    by (simp add: length_by_type header_count)
  show "build_library env (with_components (elements w)) = Inr f"
    using b by (simp add: build_library_skip)
next
  assume "\<forall>e. \<not> rejects env e"
  from build_library_total [OF this] obtain f where "build_library env (elements w) = Inr f"
    by blast
  then show "\<exists>f w'. create_ifc_library_from_bauteil_elements env output_path w = (Inr f, w')"
    by (simp add: create_ifc_library_from_bauteil_elements_def)
qed

theorem one_layer_set_and_wall_type_per_element_witness:
  "\<exists>f w'. create_ifc_library_from_bauteil_elements
       \<lparr>guid = (\<lambda>n. ''0''), now = 0, rejects = (\<lambda>e. False)\<rparr> ''lib.ifc''
       \<lparr>elements =
          [\<lparr>category_code = ''331'', name = ''Wall A'', components = []\<rparr>,
           \<lparr>category_code = ''331'', name = ''Wall B'', components =
              [\<lparr>Component.name = Some ''Brick'', quantity = Some ''200,00 mm'',
                layer_thickness = None, lifecycle_processes = []\<rparr>]\<rparr>],
        disk = Map.empty\<rparr> = (Inr f, w') \<and>
     disk w' ''lib.ifc'' = Some f \<and>
     length (by_type f ''IfcMaterialLayerSet'') = 1 \<and> length (by_type f ''IfcWallType'') = 1"
  using one_layer_set_and_wall_type_per_element [where
      env = "\<lparr>guid = (\<lambda>n. ''0''), now = 0, rejects = (\<lambda>e. False)\<rparr>" and output_path = "''lib.ifc''"
      and w = "\<lparr>elements =
          [\<lparr>category_code = ''331'', name = ''Wall A'', components = []\<rparr>,
           \<lparr>category_code = ''331'', name = ''Wall B'', components =
              [\<lparr>Component.name = Some ''Brick'', quantity = Some ''200,00 mm'',
                layer_thickness = None, lifecycle_processes = []\<rparr>]\<rparr>],
        disk = Map.empty\<rparr>"]
  by (elim conjE impE exE) auto

text \<open>
  C5, as stated, fails: the quantity string \<open>-5 mm\<close> is accepted by the parser and
  resolves to the negative thickness -0.005.
\<close>

theorem negative_quantity_counterexample:
  "resolve_thickness (Some ''-5 mm'') = Inr (Finite (- (1 / 200))) \<and> \<not> nonneg (Finite (- (1 / 200)))"
proof -
  have 1: "split ''-5 mm'' = [''-5'', ''mm'']"
    by (simp add: split_def is_space_def)
  have 2: "float (replace_comma ''-5'') = Inr (Finite (- 5))"
    by (simp add: replace_comma_def float_def decimal_def exponent_def is_digit_def digits_val_def
        digit_val_def lower_def lower_char_def)
  show ?thesis
    by (simp add: resolve_thickness_parsed [OF 1 2] lower_def lower_char_def)
qed

text \<open>
  C5, amended.  Thickness resolution always yields a float, and that float is
  non-negative whenever the quantity is missing, empty or unparseable, or the first word
  of the quantity string parses to a non-negative number.  Nothing is promised for a
  number that is negative or nan: the parser accepts it and its sign is not checked.
\<close>

theorem thickness_nonneg_for_nonneg_number:
  "\<exists>t. resolve_thickness qty = Inr t \<and>
     ((\<forall>q w ws v. qty = Some q \<longrightarrow> split q = w # ws \<longrightarrow> float (replace_comma w) = Inr v \<longrightarrow> nonneg v)
        \<longrightarrow> nonneg t)"
proof (cases "\<exists>q w ws v. qty = Some q \<and> split q = w # ws \<and> float (replace_comma w) = Inr v")
  case True
  then obtain q w ws v where q: "qty = Some q" "split q = w # ws" "float (replace_comma w) = Inr v"
    by blast
  have "\<exists>t. resolve_thickness qty = Inr t \<and> (nonneg v \<longrightarrow> nonneg t)"
    unfolding q(1) resolve_thickness_parsed [OF q(2,3)] by (simp add: Let_def nonneg_fdiv)
  with q show ?thesis by blast
next
  case False
  have "resolve_thickness qty = Inr (Finite 0) \<or> resolve_thickness qty = Inr (Finite (1 / 100))"
  proof (cases qty)
    case None
    then show ?thesis by (simp add: resolve_thickness_def)
  next
    case (Some q)
    show ?thesis
    proof (cases "q = []")
      case True
      with Some show ?thesis by (simp add: resolve_thickness_def)
    next
      case nonempty: False
      from False Some have "\<forall>w ws. split q = w # ws \<longrightarrow> (\<exists>e. float (replace_comma w) = Inl e)"
        by (metis sum.exhaust)
      from resolve_thickness_unparsed [OF nonempty this] Some show ?thesis by simp
    qed
  qed
  then show ?thesis by auto
qed

theorem thickness_nonneg_for_nonneg_number_witness:
  "\<exists>t. resolve_thickness (Some ''5 mm'') = Inr t \<and> nonneg t"
proof -
  have 1: "split ''5 mm'' = [''5'', ''mm'']"
    by (simp add: split_def is_space_def)
  have 2: "float (replace_comma ''5'') = Inr (Finite 5)"
    by (simp add: replace_comma_def float_def decimal_def exponent_def is_digit_def digits_val_def
        digit_val_def lower_def lower_char_def)
  from thickness_nonneg_for_nonneg_number [of "Some ''5 mm''"] show ?thesis
    by (auto simp: 1 2)
qed

text \<open>
  C10.  Emission leaves the element list as it found it: after the call, whether it
  returned or raised, the list holds the same elements with the same components (names,
  category codes, quantity strings, layer thicknesses, process references, lengths).
\<close>

theorem emission_leaves_elements:
  "elements (snd (create_ifc_library_from_bauteil_elements env output_path w)) = elements w"
  by (simp add: create_ifc_library_from_bauteil_elements_def split: sum.splits)

section \<open>Properties of the XML operator\<close>

text \<open>
  C7.  When the XML operator runs while no HTML path is stored, or the stored path is empty
  or no longer exists, it is cancelled with one error report and the scene is left as it
  was: no XML path, match flag, layer data or serialized element list is stored.
\<close>

theorem xml_before_html_aborts:
  assumes "scene b ''elca_html_path'' = None \<or> scene b ''elca_html_path'' = Some [] \<or>
           (\<exists>p. scene b ''elca_html_path'' = Some p \<and> \<not> path_exists h p)"
  shows "fst (load_project_execute h filepath b) = CANCELLED \<and>
         scene (snd (load_project_execute h filepath b)) = scene b \<and>
         (\<exists>msg. reports (snd (load_project_execute h filepath b)) = reports b @ [(ERROR, msg)]) \<and>
         (dependencies_installed h \<longrightarrow>
            snd (load_project_execute h filepath b) =
              b\<lparr>reports := reports b @ [(ERROR, ''Please load the HTML results file first!'')]\<rparr>)"
  using assms
  by (auto simp: load_project_execute_def report_def split: option.splits)

theorem xml_before_html_aborts_witness:
  "load_project_execute
     \<lparr>dependencies_installed = True, path_exists = (\<lambda>p. True), parse_html = (\<lambda>p. Inr []),
      parse_xml = (\<lambda>p. Inr []), best_match = (\<lambda>k r. None), pickle_b64 = (\<lambda>es. Some ''gASV''),
      str_summary = (\<lambda>s. ''{}''), str_exn = (\<lambda>e. ''error'')\<rparr>
     ''project.xml'' \<lparr>scene = Map.empty, reports = []\<rparr> =
   (CANCELLED,
    \<lparr>scene = Map.empty, reports = [(ERROR, ''Please load the HTML results file first!'')]\<rparr>)"
  using xml_before_html_aborts [of "\<lparr>scene = Map.empty, reports = []\<rparr>"
      "\<lparr>dependencies_installed = True, path_exists = (\<lambda>p. True), parse_html = (\<lambda>p. Inr []),
      parse_xml = (\<lambda>p. Inr []), best_match = (\<lambda>k r. None), pickle_b64 = (\<lambda>es. Some ''gASV''),
      str_summary = (\<lambda>s. ''{}''), str_exn = (\<lambda>e. ''error'')\<rparr>" "''project.xml''"]
  by (simp add: prod_eq_iff)

text \<open>
  C6.  When the XML file has no layer entry, the summary has \<open>total_layers = 0\<close>, the
  elements come out of the extractor as the HTML parse produced them (no thickness is
  touched), and the operator finishes with the single report of level warning,
  storing the match flag \<open>false\<close>.
\<close>

theorem no_layers_is_a_warning:
  assumes "dependencies_installed h"
    and "scene b ''elca_html_path'' = Some html_path" "html_path \<noteq> []" "path_exists h html_path"
    and "parse_html h html_path = Inr es" "parse_xml h filepath = Inr xml"
    and "concat (map snd xml) = []"
  shows "\<exists>s. extractor h html_path filepath = Inr (es, s) \<and> total_layers s = 0 \<and>
           fst (load_project_execute h filepath b) = FINISHED \<and>
           reports (snd (load_project_execute h filepath b)) =
             reports b @ [(WARNING, ''No layer thickness data found in XML file'')] \<and>
           scene (snd (load_project_execute h filepath b)) ''elca_matched_data'' = Some ''false''"
proof -
  let ?s = "summarize (best_match h) xml es"
  have e: "extractor h html_path filepath = Inr (es, ?s)"
    using assms(5,6) by (simp add: extractor_def assms(7))
  have t: "total_layers ?s = 0"
    by (simp add: summarize_def assms(7))
  show ?thesis
    using assms(1-4) e t
    by (simp add: load_project_execute_def Let_def report_def set_prop_def split: option.splits)
qed


theorem no_layers_is_a_warning_witness:
  "fst (load_project_execute
     \<lparr>dependencies_installed = True, path_exists = (\<lambda>p. True),
      parse_html = (\<lambda>p. Inr [\<lparr>category_code = ''331'', name = ''Wall A'', components =
         [\<lparr>Component.name = Some ''Brick'', quantity = Some ''200,00 mm'',
           layer_thickness = None, lifecycle_processes = []\<rparr>]\<rparr>]),
      parse_xml = (\<lambda>p. Inr [(''331'', [])]), best_match = (\<lambda>k r. None),
      pickle_b64 = (\<lambda>es. Some ''gASV''), str_summary = (\<lambda>s. ''{}''), str_exn = (\<lambda>e. ''error'')\<rparr>
     ''project.xml'' \<lparr>scene = [''elca_html_path'' \<mapsto> ''results.html''], reports = []\<rparr>) = FINISHED \<and>
   reports (snd (load_project_execute
     \<lparr>dependencies_installed = True, path_exists = (\<lambda>p. True),
      parse_html = (\<lambda>p. Inr [\<lparr>category_code = ''331'', name = ''Wall A'', components =
         [\<lparr>Component.name = Some ''Brick'', quantity = Some ''200,00 mm'',
           layer_thickness = None, lifecycle_processes = []\<rparr>]\<rparr>]),
      parse_xml = (\<lambda>p. Inr [(''331'', [])]), best_match = (\<lambda>k r. None),
      pickle_b64 = (\<lambda>es. Some ''gASV''), str_summary = (\<lambda>s. ''{}''), str_exn = (\<lambda>e. ''error'')\<rparr>
     ''project.xml'' \<lparr>scene = [''elca_html_path'' \<mapsto> ''results.html''], reports = []\<rparr>)) =
     [(WARNING, ''No layer thickness data found in XML file'')]"
proof -
  let ?es = "[\<lparr>category_code = ''331'', name = ''Wall A'', components =
         [\<lparr>Component.name = Some ''Brick'', quantity = Some ''200,00 mm'',
           layer_thickness = None, lifecycle_processes = []\<rparr>]\<rparr>]"
  let ?h = "\<lparr>dependencies_installed = True, path_exists = (\<lambda>p. True),
      parse_html = (\<lambda>p. Inr ?es),
      parse_xml = (\<lambda>p. Inr [(''331'', [])]), best_match = (\<lambda>k r. None),
      pickle_b64 = (\<lambda>es. Some ''gASV''), str_summary = (\<lambda>s. ''{}''), str_exn = (\<lambda>e. ''error'')\<rparr>"
  let ?b = "\<lparr>scene = [''elca_html_path'' \<mapsto> ''results.html''], reports = []\<rparr>"
  have "\<exists>s. extractor ?h ''results.html'' ''project.xml'' = Inr (?es, s) \<and> total_layers s = 0 \<and>
           fst (load_project_execute ?h ''project.xml'' ?b) = FINISHED \<and>
           reports (snd (load_project_execute ?h ''project.xml'' ?b)) =
             reports ?b @ [(WARNING, ''No layer thickness data found in XML file'')] \<and>
           scene (snd (load_project_execute ?h ''project.xml'' ?b)) ''elca_matched_data'' = Some ''false''"
    by (rule no_layers_is_a_warning) auto
  then show ?thesis by auto
qed


text \<open>What a run adds to the scene and reports, given the stored HTML path.\<close>

lemma load_project_execute_shape:
  "\<exists>st upd new. (\<forall>b. scene b ''elca_html_path'' = hp \<longrightarrow>
      load_project_execute h filepath b =
        (st, b\<lparr>scene := scene b ++ upd, reports := reports b @ new\<rparr>)) \<and> ''elca_html_path'' \<notin> dom upd"
proof (cases "dependencies_installed h")
  case False
  then show ?thesis
    by (intro exI [of _ CANCELLED] exI [of _ Map.empty]
        exI [of _ "[(ERROR, ''Required dependencies are not installed. Check the console for details.'')]"])
      (simp add: load_project_execute_def report_def)
next
  case deps: True
  show ?thesis
  proof (cases "\<exists>p. hp = Some p \<and> p \<noteq> [] \<and> path_exists h p")
    case False
    have "\<forall>b. scene b ''elca_html_path'' = hp \<longrightarrow>
      load_project_execute h filepath b =
        (CANCELLED, b\<lparr>scene := scene b ++ Map.empty,
           reports := reports b @ [(ERROR, ''Please load the HTML results file first!'')]\<rparr>)"
    proof (cases hp)
      case None
      then show ?thesis by (simp add: load_project_execute_def report_def deps)
    next
      case (Some p)
      with False have "p = [] \<or> \<not> path_exists h p" by simp
      with Some show ?thesis by (simp add: load_project_execute_def report_def deps)
    qed
    then show ?thesis
      by (intro exI [of _ CANCELLED] exI [of _ Map.empty]
          exI [of _ "[(ERROR, ''Please load the HTML results file first!'')]"]) simp
  next
    case True
    then obtain p where p: "hp = Some p" "p \<noteq> []" "path_exists h p" by blast
    show ?thesis
    proof (cases "extractor h p filepath")
      case (Inl e)
      show ?thesis
        by (intro exI [of _ CANCELLED] exI [of _ "[''elca_xml_path'' \<mapsto> filepath]"]
            exI [of _ "[(ERROR, ''Error processing eLCA project: '' @ str_exn h e)]"])
          (simp add: load_project_execute_def report_def set_prop_def deps p Inl)
    next
      case (Inr r)
      obtain es s where r: "r = (es, s)" by (cases r)
      let ?data = "case pickle_b64 h es of Some d \<Rightarrow> d | None \<Rightarrow> []"
      show ?thesis
      proof (cases "total_layers s > 0")
        case True
        show ?thesis
          by (intro exI [of _ FINISHED]
              exI [of _ "[''elca_xml_path'' \<mapsto> filepath, ''elca_matched_data'' \<mapsto> ''true'',
                  ''elca_layer_data'' \<mapsto> str_summary h s, ''elca_bauteil_elements'' \<mapsto> ?data]"]
              exI [of _ "[(INFO, ''Matched '' @ str_nat (num_layers_with_thickness es) @
                                   '' components with layer thicknesses from '' @
                                   str_nat (total_elements s) @ '' XML elements'')]"])
            (simp add: load_project_execute_def report_def set_prop_def deps p Inr r True
              split: option.splits)
      next
        case False
        show ?thesis
          by (intro exI [of _ FINISHED]
              exI [of _ "[''elca_xml_path'' \<mapsto> filepath, ''elca_matched_data'' \<mapsto> ''false'',
                  ''elca_bauteil_elements'' \<mapsto> ?data]"]
              exI [of _ "[(WARNING, ''No layer thickness data found in XML file'')]"])
            (simp add: load_project_execute_def report_def set_prop_def deps p Inr r False
              split: option.splits)
      qed
    qed
  qed
qed

text \<open>
  C8.  Running the XML operator a second time on the same XML path, from the state the
  first run left, gives the same status and the same reports (which carry the count of
  matched thicknesses) as the first run, and leaves the scene as the first run left it.
\<close>

theorem matching_twice_same_counts:
  assumes "load_project_execute h filepath b = (r1, b1)"
    and "load_project_execute h filepath b1 = (r2, b2)"
  shows "r2 = r1 \<and> scene b2 = scene b1 \<and>
         drop (length (reports b1)) (reports b2) = drop (length (reports b)) (reports b1)"
proof -
  obtain st upd new where
    shape: "\<And>b'. scene b' ''elca_html_path'' = scene b ''elca_html_path'' \<Longrightarrow>
      load_project_execute h filepath b' =
        (st, b'\<lparr>scene := scene b' ++ upd, reports := reports b' @ new\<rparr>)"
    and upd: "''elca_html_path'' \<notin> dom upd"
    using load_project_execute_shape [of "scene b ''elca_html_path''" h filepath] by blast
  have 1: "r1 = st" "b1 = b\<lparr>scene := scene b ++ upd, reports := reports b @ new\<rparr>"
    using shape [of b] assms(1) by simp_all
  have "scene b1 ''elca_html_path'' = scene b ''elca_html_path''"
    using upd by (simp add: 1 map_add_dom_app_simps)
  from shape [OF this] assms(2)
  have 2: "r2 = st" "b2 = b1\<lparr>scene := scene b1 ++ upd, reports := reports b1 @ new\<rparr>"
    by simp_all
  have "scene b ++ upd ++ upd = scene b ++ upd"
    by (simp add: fun_eq_iff map_add_def split: option.splits)
  then show ?thesis by (simp add: 1 2)
qed

lemma str_nat_1: "str_nat (Suc 0) = ''1''"
  by code_simp

theorem matching_twice_same_counts_witness:
  "\<exists>b1 b2.
     load_project_execute
       \<lparr>dependencies_installed = True, path_exists = (\<lambda>p. True),
        parse_html = (\<lambda>p. Inr [\<lparr>category_code = ''331'', name = ''Wall A'', components =
           [\<lparr>Component.name = Some ''Brick'', quantity = Some ''200,00 mm'',
             layer_thickness = None, lifecycle_processes = []\<rparr>]\<rparr>]),
        parse_xml = (\<lambda>p. Inr [(''331'', [\<lparr>element_key = ''331'', layer_name = ''Brick'',
           thickness_value = Some (Finite 200), thickness_unit = ''mm''\<rparr>])]),
        best_match = (\<lambda>k r. Some (0, 0)),
        pickle_b64 = (\<lambda>es. Some ''gASV''), str_summary = (\<lambda>s. ''{}''), str_exn = (\<lambda>e. ''error'')\<rparr>
       ''project.xml'' \<lparr>scene = [''elca_html_path'' \<mapsto> ''results.html''], reports = []\<rparr> =
       (FINISHED, b1) \<and>
     reports b1 =
       [(INFO, ''Matched 1 components with layer thicknesses from 1 XML elements'')] \<and>
     load_project_execute
       \<lparr>dependencies_installed = True, path_exists = (\<lambda>p. True),
        parse_html = (\<lambda>p. Inr [\<lparr>category_code = ''331'', name = ''Wall A'', components =
           [\<lparr>Component.name = Some ''Brick'', quantity = Some ''200,00 mm'',
             layer_thickness = None, lifecycle_processes = []\<rparr>]\<rparr>]),
        parse_xml = (\<lambda>p. Inr [(''331'', [\<lparr>element_key = ''331'', layer_name = ''Brick'',
           thickness_value = Some (Finite 200), thickness_unit = ''mm''\<rparr>])]),
        best_match = (\<lambda>k r. Some (0, 0)),
        pickle_b64 = (\<lambda>es. Some ''gASV''), str_summary = (\<lambda>s. ''{}''), str_exn = (\<lambda>e. ''error'')\<rparr>
       ''project.xml'' b1 = (FINISHED, b2) \<and>
     scene b2 = scene b1 \<and>
     drop (length (reports b1)) (reports b2) =
       [(INFO, ''Matched 1 components with layer thicknesses from 1 XML elements'')]"
proof -
  let ?h = "\<lparr>dependencies_installed = True, path_exists = (\<lambda>p. True),
        parse_html = (\<lambda>p. Inr [\<lparr>category_code = ''331'', name = ''Wall A'', components =
           [\<lparr>Component.name = Some ''Brick'', quantity = Some ''200,00 mm'',
             layer_thickness = None, lifecycle_processes = []\<rparr>]\<rparr>]),
        parse_xml = (\<lambda>p. Inr [(''331'', [\<lparr>element_key = ''331'', layer_name = ''Brick'',
           thickness_value = Some (Finite 200), thickness_unit = ''mm''\<rparr>])]),
        best_match = (\<lambda>k r. Some (0, 0)),
        pickle_b64 = (\<lambda>es. Some ''gASV''), str_summary = (\<lambda>s. ''{}''), str_exn = (\<lambda>e. ''error'')\<rparr>"
  let ?b = "\<lparr>scene = [''elca_html_path'' \<mapsto> ''results.html''], reports = []\<rparr>"
  have ex: "extractor ?h ''results.html'' ''project.xml'' =
      Inr ([\<lparr>category_code = ''331'', name = ''Wall A'', components =
           [\<lparr>Component.name = Some ''Brick'', quantity = Some ''200,00 mm'',
             layer_thickness = Some (Finite (1 / 5)), lifecycle_processes = []\<rparr>]\<rparr>],
           \<lparr>total_elements = 1, total_layers = 1, total_matched = 1\<rparr>)"
    by (simp add: extractor_def summarize_def attach_thickness_def thickness_in_meters_def)
  obtain b1 where run1: "load_project_execute ?h ''project.xml'' ?b = (FINISHED, b1)"
    and rep1: "reports b1 = [(INFO, ''Matched 1 components with layer thicknesses from 1 XML elements'')]"
    by (simp add: load_project_execute_def ex Let_def num_layers_with_thickness_def str_nat_1
        report_def set_prop_def)
  obtain r2 b2 where run2: "load_project_execute ?h ''project.xml'' b1 = (r2, b2)"
    by (cases "load_project_execute ?h ''project.xml'' b1")
  from matching_twice_same_counts [OF run1 run2] rep1 run1 run2 show ?thesis
    by auto
qed

section \<open>Writes come last\<close>

text \<open>
  C9.  In both functions the write is the last step.  When
  \<open>create_ifc_library_from_bauteil_elements\<close> raises, the disk is as before; when it
  returns, the file stored is the complete graph it returns.  When
  \<open>attach_library_to_project\<close> returns \<open>None\<close> (an exception was caught), the disk is as
  before; when it returns a file, either nothing was written (the two early returns) or
  the file stored under the project path is the complete graph.  The instance below has a
  construction that fails after the layer set, the material, the layer and the wall type
  were built in memory, with a file already present under the output path.
\<close>

theorem writes_only_after_construction:
  "(\<forall>e. fst (create_ifc_library_from_bauteil_elements env output_path w) = Inl e \<longrightarrow>
        snd (create_ifc_library_from_bauteil_elements env output_path w) = w) \<and>
   (\<forall>f. fst (create_ifc_library_from_bauteil_elements env output_path w) = Inr f \<longrightarrow>
        build_library env (elements w) = Inr f \<and>
        snd (create_ifc_library_from_bauteil_elements env output_path w) =
          w\<lparr>disk := (disk w)(output_path \<mapsto> f)\<rparr>) \<and>
   (fst (attach_library_to_project env project_path library_path w) = None \<longrightarrow>
        snd (attach_library_to_project env project_path library_path w) = w) \<and>
   (\<forall>f. fst (attach_library_to_project env project_path library_path w) = Some f \<longrightarrow>
        snd (attach_library_to_project env project_path library_path w) = w \<or>
        attach_graph env project_path library_path w = Inr (f, True) \<and>
        snd (attach_library_to_project env project_path library_path w) =
          w\<lparr>disk := (disk w)(project_path \<mapsto> f)\<rparr>)"
  by (auto simp: create_ifc_library_from_bauteil_elements_def attach_library_to_project_def
      split: sum.splits prod.splits if_splits)

lemma build_fails:
  "build_library \<lparr>guid = (\<lambda>n. ''0''), now = 0, rejects = (\<lambda>e. type_name e = ''IfcRelAssociatesLibrary'')\<rparr>
     [\<lparr>category_code = ''331'', name = ''Wall B'', components =
        [\<lparr>Component.name = Some ''Brick'', quantity = None,
          layer_thickness = None, lifecycle_processes = []\<rparr>]\<rparr>] = Inl RuntimeError"
  by (simp add: build_library_def library_header_def bind_def create_entity_def create_guid_def
      set_Units_def ret_def add_element_def add_component_def resolve_thickness_def
      component_name_def set_MaterialLayers_def Let_def)

lemma attach_fails:
  "attach_graph \<lparr>guid = (\<lambda>n. ''0''), now = 0, rejects = (\<lambda>e. False)\<rparr> ''project.ifc'' ''lib.ifc''
     \<lparr>elements = [], disk = [''project.ifc'' \<mapsto> [IfcProject ''1'' ''Project'' 0 0],
        ''lib.ifc'' \<mapsto> [IfcLibraryInformation (Some ''eLCA_Material_Library'') (Some ''1.0'') None]]\<rparr>
   = Inl AttributeError"
  by (simp add: attach_graph_def open_ifc_def by_type_def copy_library_def
      get_or_create_owner_history_def bind_def create_entity_def lift_def deref_def raise_def)

theorem writes_only_after_construction_witness:
  "create_ifc_library_from_bauteil_elements
     \<lparr>guid = (\<lambda>n. ''0''), now = 0, rejects = (\<lambda>e. type_name e = ''IfcRelAssociatesLibrary'')\<rparr>
     ''lib.ifc''
     \<lparr>elements = [\<lparr>category_code = ''331'', name = ''Wall B'', components =
        [\<lparr>Component.name = Some ''Brick'', quantity = None,
          layer_thickness = None, lifecycle_processes = []\<rparr>]\<rparr>],
      disk = [''lib.ifc'' \<mapsto> [IfcOther]]\<rparr> =
   (Inl RuntimeError,
     \<lparr>elements = [\<lparr>category_code = ''331'', name = ''Wall B'', components =
        [\<lparr>Component.name = Some ''Brick'', quantity = None,
          layer_thickness = None, lifecycle_processes = []\<rparr>]\<rparr>],
      disk = [''lib.ifc'' \<mapsto> [IfcOther]]\<rparr>) \<and>
   attach_library_to_project \<lparr>guid = (\<lambda>n. ''0''), now = 0, rejects = (\<lambda>e. False)\<rparr>
     ''project.ifc'' ''lib.ifc''
     \<lparr>elements = [], disk = [''project.ifc'' \<mapsto> [IfcProject ''1'' ''Project'' 0 0],
        ''lib.ifc'' \<mapsto> [IfcLibraryInformation (Some ''eLCA_Material_Library'') (Some ''1.0'') None]]\<rparr> =
   (None,
     \<lparr>elements = [], disk = [''project.ifc'' \<mapsto> [IfcProject ''1'' ''Project'' 0 0],
        ''lib.ifc'' \<mapsto> [IfcLibraryInformation (Some ''eLCA_Material_Library'') (Some ''1.0'') None]]\<rparr>)"
proof -
  let ?envR = "\<lparr>guid = (\<lambda>n. ''0''), now = 0, rejects = (\<lambda>e. type_name e = ''IfcRelAssociatesLibrary'')\<rparr>"
  let ?wR = "\<lparr>elements = [\<lparr>category_code = ''331'', name = ''Wall B'', components =
        [\<lparr>Component.name = Some ''Brick'', quantity = None,
          layer_thickness = None, lifecycle_processes = []\<rparr>]\<rparr>],
      disk = [''lib.ifc'' \<mapsto> [IfcOther]]\<rparr>"
  let ?envA = "\<lparr>guid = (\<lambda>n. ''0''), now = 0, rejects = (\<lambda>e. False)\<rparr>"
  let ?wA = "\<lparr>elements = [], disk = [''project.ifc'' \<mapsto> [IfcProject ''1'' ''Project'' 0 0],
        ''lib.ifc'' \<mapsto> [IfcLibraryInformation (Some ''eLCA_Material_Library'') (Some ''1.0'') None]]\<rparr>"
  have 1: "fst (create_ifc_library_from_bauteil_elements ?envR ''lib.ifc'' ?wR) = Inl RuntimeError"
    by (simp add: create_ifc_library_from_bauteil_elements_def build_fails)
  have 2: "fst (attach_library_to_project ?envA ''project.ifc'' ''lib.ifc'' ?wA) = None"
    by (simp add: attach_library_to_project_def attach_fails)
  from writes_only_after_construction [where env = ?envR and output_path = "''lib.ifc''" and w = ?wR] 1
  have 3: "snd (create_ifc_library_from_bauteil_elements ?envR ''lib.ifc'' ?wR) = ?wR"
    by blast
  from writes_only_after_construction [where w = ?wA and env = ?envA and project_path = "''project.ifc''"
      and library_path = "''lib.ifc''"] 2
  have 4: "snd (attach_library_to_project ?envA ''project.ifc'' ''lib.ifc'' ?wA) = ?wA"
    by blast
  from 1 2 3 4 show ?thesis by (simp add: prod_eq_iff)
qed

end
